theory Spec2Isabelle
  imports Main "HOL-Library.Sublist"
begin

section \<open>Node's \<open>path\<close> module (POSIX flavour) and \<open>String.prototype.replace\<close>\<close>

text \<open>
  \<open>packages/uni-uts-v1/src/uvue/index.ts\<close> computes every file location with
  \<open>path.resolve\<close> and \<open>path.join\<close>. Both are library functions; they are modelled
  here after Node's POSIX implementation: the arguments are glued with \<open>/\<close>, the
  result is cut into segments, empty segments and \<open>.\<close> are dropped and \<open>..\<close> removes
  the segment before it. The current working directory, which \<open>path.resolve\<close> reads
  from the process, is the explicit first argument \<open>cwd\<close>.
\<close>

definition isAbsolute :: "string \<Rightarrow> bool" where
  "isAbsolute p = (case p of [] \<Rightarrow> False | c # _ \<Rightarrow> c = CHR ''/'')"

fun split_slash :: "string \<Rightarrow> string \<Rightarrow> string list" where
  "split_slash cur [] = [rev cur]"
| "split_slash cur (c # cs) =
     (if c = CHR ''/'' then rev cur # split_slash [] cs else split_slash (c # cur) cs)"

fun join_slash :: "string list \<Rightarrow> string" where
  "join_slash [] = []"
| "join_slash [s] = s"
| "join_slash (s # t # ss) = s @ ''/'' @ join_slash (t # ss)"

text \<open>
  \<open>normalizeString(path, allowAboveRoot)\<close>: \<open>acc\<close> is the stack of segments kept so
  far, last segment first.
\<close>

fun normalize_segs :: "bool \<Rightarrow> string list \<Rightarrow> string list \<Rightarrow> string list" where
  "normalize_segs allow acc [] = rev acc"
| "normalize_segs allow acc (s # ss) =
     (if s = [] \<or> s = ''.'' then normalize_segs allow acc ss
      else if s = ''..'' then
        (case acc of
           [] \<Rightarrow> normalize_segs allow (if allow then [''..''] else []) ss
         | a # rest \<Rightarrow>
             if a = ''..'' then normalize_segs allow (if allow then ''..'' # acc else acc) ss
             else normalize_segs allow rest ss)
      else normalize_segs allow (s # acc) ss)"

definition normalizeString :: "string \<Rightarrow> bool \<Rightarrow> string" where
  "normalizeString p allowAboveRoot =
     join_slash (normalize_segs allowAboveRoot [] (split_slash [] p))"

text \<open>
  The loop of \<open>path.resolve\<close> walks the arguments from the last to the first and then
  the working directory, and stops at the first absolute one. \<open>ps\<close> is that sequence.
\<close>

fun resolve_loop :: "string list \<Rightarrow> string \<Rightarrow> string \<times> bool" where
  "resolve_loop [] resolvedPath = (resolvedPath, False)"
| "resolve_loop (p # ps) resolvedPath =
     (if p = [] then resolve_loop ps resolvedPath
      else if isAbsolute p then (p @ ''/'' @ resolvedPath, True)
      else resolve_loop ps (p @ ''/'' @ resolvedPath))"

definition path_resolve :: "string \<Rightarrow> string list \<Rightarrow> string" where
  "path_resolve cwd args =
     (case resolve_loop (rev args @ [cwd]) [] of
        (resolvedPath, resolvedAbsolute) \<Rightarrow>
          (let n = normalizeString resolvedPath (\<not> resolvedAbsolute) in
           if resolvedAbsolute then ''/'' @ n
           else if n \<noteq> [] then n else ''.''))"

definition path_normalize :: "string \<Rightarrow> string" where
  "path_normalize p =
     (if p = [] then ''.''
      else
        (let isAbs = isAbsolute p;
             trailingSeparator = (last p = CHR ''/'');
             n = normalizeString p (\<not> isAbs) in
         if n = [] then (if isAbs then ''/'' else if trailingSeparator then ''./'' else ''.'')
         else (if isAbs then ''/'' else []) @ n @ (if trailingSeparator then ''/'' else [])))"

definition path_join :: "string list \<Rightarrow> string" where
  "path_join args =
     (case filter (\<lambda>a. a \<noteq> []) args of
        [] \<Rightarrow> ''.''
      | joined \<Rightarrow> path_normalize (join_slash joined))"

text \<open>
  \<open>s.replace(pat, rep)\<close> with a string pattern replaces the first occurrence of
  \<open>pat\<close> in \<open>s\<close>, wherever it stands, and nothing else.
\<close>

fun replace_first :: "string \<Rightarrow> string \<Rightarrow> string \<Rightarrow> string" where
  "replace_first pat rep [] = (if pat = [] then rep else [])"
| "replace_first pat rep (c # cs) =
     (if prefix pat (c # cs) then rep @ drop (length pat) (c # cs)
      else c # replace_first pat rep cs)"

section \<open>JSON values and what JavaScript does with them\<close>

text \<open>
  \<open>readKotlinManifestJson\<close> returns whatever \<open>JSON.parse\<close> returns, and
  \<open>runKotlinDev\<close> tests that value with \<open>if (manifest)\<close>, deletes properties of it
  and hands it to \<open>JSON.stringify\<close>. A JSON value is \<open>null\<close>, a boolean, a number,
  a string, an array or an object. A JavaScript string is a sequence of 16-bit code
  units, kept as numbers; \<open>units\<close> turns a string of this theory into one. A
  number \<open>JNumber m e\<close> stands for the double nearest to \<open>m * 10^e\<close>, which is zero
  when \<open>m * 10^e\<close> is at most \<open>2^-1075\<close> in size and infinite when it is at least
  \<open>2^1024 - 2^970\<close>. An object is the list of its properties in the order
  JavaScript enumerates them.
\<close>

type_synonym jsstring = "nat list"

definition units :: "string \<Rightarrow> jsstring" where
  "units s = map of_char s"

datatype json =
    JNull
  | JBool bool
  | JNumber int int
  | JString jsstring
  | JArray "json list"
  | JObject "(jsstring \<times> json) list"

definition number_is_zero :: "int \<Rightarrow> int \<Rightarrow> bool" where
  "number_is_zero m e = (m = 0 \<or> (e < 0 \<and> \<bar>m\<bar> * 2 ^ 1075 \<le> 10 ^ nat (- e)))"

definition number_is_infinite :: "int \<Rightarrow> int \<Rightarrow> bool" where
  "number_is_infinite m e =
     (if 0 \<le> e then 2 ^ 1024 - 2 ^ 970 \<le> \<bar>m\<bar> * 10 ^ nat e
      else (2 ^ 1024 - 2 ^ 970) * 10 ^ nat (- e) \<le> \<bar>m\<bar>)"

text \<open>\<open>ToBoolean\<close>, the test of \<open>if (manifest)\<close>.\<close>

fun truthy :: "json \<Rightarrow> bool" where
  "truthy JNull = False"
| "truthy (JBool b) = b"
| "truthy (JNumber m e) = (\<not> number_is_zero m e)"
| "truthy (JString s) = (s \<noteq> [])"
| "truthy (JArray xs) = True"
| "truthy (JObject kvs) = True"

text \<open>
  \<open>JSON.parse(JSON.stringify(v))\<close>: \<open>JSON.stringify\<close> writes an infinite number as
  \<open>null\<close> and everything else so that parsing gives it back.
\<close>

fun restore :: "json \<Rightarrow> json" where
  "restore JNull = JNull"
| "restore (JBool b) = JBool b"
| "restore (JNumber m e) = (if number_is_infinite m e then JNull else JNumber m e)"
| "restore (JString s) = JString s"
| "restore (JArray xs) = JArray (map restore xs)"
| "restore (JObject kvs) = JObject (map (\<lambda>kv. (fst kv, restore (snd kv))) kvs)"

text \<open>
  A property key is an array index when it is the decimal numeral, without leading
  zeros, of a number up to \<open>2^32 - 2\<close>.
\<close>

definition array_index :: "jsstring \<Rightarrow> int option" where
  "array_index k =
     (if k = [] \<or> list_ex (\<lambda>u. u < 48 \<or> 57 < u) k \<or> (hd k = 48 \<and> k \<noteq> [48]) then None
      else (let n = foldl (\<lambda>v u. 10 * v + (int u - 48)) 0 k in
            if n \<le> 4294967294 then Some n else None))"

definition is_element :: "string \<Rightarrow> nat \<Rightarrow> bool" where
  "is_element file n =
     (case array_index (units file) of None \<Rightarrow> False | Some i \<Rightarrow> i < int n)"

section \<open>The file system, the console and the compiler driver\<close>

text \<open>
  A file system is a map from (resolved) paths to file contents; directories are
  implicit. A file is \<open>Raw\<close> text, or it is \<open>Json v\<close>: the text that
  \<open>JSON.stringify(v)\<close> wrote, which is not spelled out. The one file whose contents
  the code interprets is the manifest \<open>.manifest.json\<close>.
\<close>

datatype file_content = Raw string | Json json

type_synonym files = "string \<Rightarrow> file_content option"

datatype error =
    ENOENT string
  | SameSourceAndDestination string
  | SyntaxError
  | TypeError
  | RunExtensionMissing

definition existsSync :: "files \<Rightarrow> string \<Rightarrow> bool" where
  "existsSync fs p = (fs p \<noteq> None)"

definition unlinkSync :: "files \<Rightarrow> string \<Rightarrow> (error + unit) \<times> files" where
  "unlinkSync fs p = (if fs p = None then (Inl (ENOENT p), fs) else (Inr (), fs(p := None)))"

text \<open>
  \<open>fs.copySync\<close> of fs-extra overwrites an existing destination; it throws when
  the source is missing and when source and destination are the same file.
\<close>

definition copySync :: "files \<Rightarrow> string \<Rightarrow> string \<Rightarrow> (error + unit) \<times> files" where
  "copySync fs src dest =
     (case fs src of
        None \<Rightarrow> (Inl (ENOENT src), fs)
      | Some c \<Rightarrow>
          if src = dest then (Inl (SameSourceAndDestination src), fs)
          else (Inr (), fs(dest \<mapsto> c)))"

text \<open>
  Modelled from the spec: the type \<open>KotlinCompilerServer\<close> and the type of what its
  \<open>compile\<close> returns are declared in \<open>../kotlin\<close>, which is not among the sources.
  The spec gives the answer as a numeric status code, an optional message and, on
  success, a data payload with the ordered list of the dex artifacts produced;
  \<open>runKotlinDev\<close> reads it as \<open>{code, msg, data}\<close> and \<open>data.dexList\<close>. The driver is
  external: it is an arbitrary function from the request and the file system to its
  answer and the file system it leaves behind. Of the request only the parts built
  from the resolver's output are kept: the Kotlin files handed to
  \<open>resolveKotlincArgs\<close> and the three directories.
\<close>

record DexData =
  dexList :: "string list"

record CompileResult =
  code :: int
  msg :: "string option"
  data :: "DexData option"

record CompileOptions =
  kotlincFiles :: "string list"
  kotlinOutDir :: string
  dexOutDir :: string
  srcInputDir :: string

record KotlinCompilerServer =
  compile :: "CompileOptions \<Rightarrow> string \<Rightarrow> files \<Rightarrow> CompileResult \<times> files"

text \<open>
  What the process reads from its surroundings: the working directory, the variable
  \<open>UNI_APP_X_CACHE_DIR\<close> and \<open>getCompilerServer('uniapp-runextension')\<close>. The
  built-in \<open>JSON.parse\<close> is kept here as well, as a function from a text to the
  value it parses to, \<open>None\<close> where it throws its \<open>SyntaxError\<close>; nothing is
  assumed of it, so what is proved holds of the real one.
\<close>

record environment =
  cwd :: string
  UNI_APP_X_CACHE_DIR :: "string option"
  compilerServer :: "KotlinCompilerServer option"
  JSON_parse :: "string \<Rightarrow> json option"

text \<open>
  What a cycle changes outside the result object: the files, the lines written with
  \<open>console.error\<close>, and the requests sent to the driver.
\<close>

record world =
  files :: files
  console :: "string list"
  driver_calls :: "(CompileOptions \<times> string) list"

text \<open>
  Of \<open>CompileAppOptions\<close> the development cycle reads \<open>inputDir\<close> and \<open>outputDir\<close>;
  the other fields only feed the transpiler call of \<open>compileApp\<close>.
\<close>

record CompileAppOptions =
  inputDir :: string
  outputDir :: string

text \<open>
  Modelled from the spec: the type \<open>RunKotlinDevResult\<close> is declared in \<open>../kotlin\<close>,
  which is not among the sources. Its fields are those of the spec's
  \<open>CompileResult\<close> that \<open>runKotlinDev\<close> reads and writes: the optional entry file
  name, the changed list, the optional chunk list, the type tag and the \<open>kotlinc\<close>
  flag.
\<close>

record RunKotlinDevResult =
  type :: "string option"
  filename :: "string option"
  changed :: "string list"
  chunks :: "string list option"
  kotlinc :: bool

section \<open>Directory layout\<close>

text \<open>
  \<open>process.env.UNI_APP_X_CACHE_DIR || path.resolve(outputDir, '../.kotlin')\<close>: an
  unset variable and the empty string are both falsy.
\<close>

definition kotlinDir :: "environment \<Rightarrow> string \<Rightarrow> string" where
  "kotlinDir env outDir =
     (case UNI_APP_X_CACHE_DIR env of
        None \<Rightarrow> path_resolve (cwd env) [outDir, ''../.kotlin'']
      | Some d \<Rightarrow> if d = [] then path_resolve (cwd env) [outDir, ''../.kotlin''] else d)"

definition kotlinSrcDir :: "string \<Rightarrow> string \<Rightarrow> string" where
  "kotlinSrcDir wd kotlinRoot = path_resolve wd [kotlinRoot, ''src'']"

definition kotlinDexDir :: "string \<Rightarrow> string \<Rightarrow> string" where
  "kotlinDexDir wd kotlinRoot = path_resolve wd [kotlinRoot, ''dex'']"

definition kotlinClassDir :: "string \<Rightarrow> string \<Rightarrow> string" where
  "kotlinClassDir wd kotlinRoot = path_resolve wd [kotlinRoot, ''class'']"

definition resolveDexByKotlinFile :: "string \<Rightarrow> string \<Rightarrow> string \<Rightarrow> string" where
  "resolveDexByKotlinFile wd kotlinDexOutDir kotlinFile =
     path_join [replace_first ''.kt'' [] (path_resolve wd [kotlinDexOutDir, kotlinFile]),
                ''classes.dex'']"

section \<open>The manifest store\<close>

text \<open>
  \<open>JSON.parse(fs.readFileSync(file, 'utf8'))\<close>: the text of a \<open>Raw\<close> file goes
  through \<open>JSON.parse\<close>, whose \<open>SyntaxError\<close> is not caught; a file that
  \<open>JSON.stringify(v)\<close> wrote parses to \<open>restore v\<close>. The function returns the parsed
  value whatever it is, and \<open>undefined\<close> (\<open>None\<close>) when the file does not exist.
\<close>

definition readKotlinManifestJson ::
  "(string \<Rightarrow> json option) \<Rightarrow> string \<Rightarrow> string \<Rightarrow> files \<Rightarrow> error + json option" where
  "readKotlinManifestJson parse wd kotlinSrcOutDir fs =
     (let file = path_resolve wd [kotlinSrcOutDir, ''.manifest.json''] in
      if existsSync fs file then
        (case fs file of
           Some (Raw text) \<Rightarrow>
             (case parse text of None \<Rightarrow> Inl SyntaxError | Some v \<Rightarrow> Inr (Some v))
         | Some (Json v) \<Rightarrow> Inr (Some (restore v))
         | None \<Rightarrow> Inr None)
      else Inr None)"

definition writeKotlinManifestJson :: "string \<Rightarrow> string \<Rightarrow> json \<Rightarrow> files \<Rightarrow> files" where
  "writeKotlinManifestJson wd kotlinSrcOutDir manifest fs =
     fs(path_resolve wd [kotlinSrcOutDir, ''.manifest.json''] \<mapsto> Json manifest)"

text \<open>
  \<open>delete manifest[file]\<close> in strict mode code, which a module is. A property of an
  object parsed from JSON is removed. An element of an array is removed and leaves
  a hole, which \<open>JSON.stringify\<close> writes as \<open>null\<close>; nothing reads the array before
  it is written, so the hole is kept as \<open>JNull\<close>. The \<open>length\<close> of an array and the
  \<open>length\<close> and the elements of a string cannot be deleted: the operator throws a
  \<open>TypeError\<close>. Deleting a property that a value does not have does nothing.
\<close>

fun delete_property :: "string \<Rightarrow> json \<Rightarrow> error + json" where
  "delete_property file (JObject kvs) =
     Inr (JObject (filter (\<lambda>kv. fst kv \<noteq> units file) kvs))"
| "delete_property file (JArray xs) =
     (if file = ''length'' then Inl TypeError
      else (case array_index (units file) of
              None \<Rightarrow> Inr (JArray xs)
            | Some i \<Rightarrow>
                if i < int (length xs) then Inr (JArray (xs[nat i := JNull]))
                else Inr (JArray xs)))"
| "delete_property file (JString s) =
     (if file = ''length'' \<or> is_element file (length s) then Inl TypeError
      else Inr (JString s))"
| "delete_property file v = Inr v"

text \<open>\<open>result.changed.forEach((file) => { delete manifest[file] })\<close>.\<close>

fun delete_each :: "string list \<Rightarrow> json \<Rightarrow> error + json" where
  "delete_each [] manifest = Inr manifest"
| "delete_each (file # rest) manifest =
     (case delete_property file manifest of
        Inl e \<Rightarrow> Inl e
      | Inr manifest' \<Rightarrow> delete_each rest manifest')"

section \<open>The change set resolver\<close>

text \<open>
  The callback of \<open>result.changed.map\<close>, run over the list in order: the cached dex
  of a changed file is unlinked when it exists, and the file's resolved path is the
  callback's value.
\<close>

fun changed_map ::
  "string \<Rightarrow> string \<Rightarrow> string \<Rightarrow> string list \<Rightarrow> files \<Rightarrow> (error + string list) \<times> files" where
  "changed_map wd kotlinSrcOutDir kotlinDexOutDir [] fs = (Inr [], fs)"
| "changed_map wd kotlinSrcOutDir kotlinDexOutDir (file # rest) fs =
     (let dexFile = resolveDexByKotlinFile wd kotlinDexOutDir file in
      case (if existsSync fs dexFile then unlinkSync fs dexFile else (Inr (), fs)) of
        (Inl e, fs1) \<Rightarrow> (Inl e, fs1)
      | (Inr u, fs1) \<Rightarrow>
          (case changed_map wd kotlinSrcOutDir kotlinDexOutDir rest fs1 of
             (Inl e, fs2) \<Rightarrow> (Inl e, fs2)
           | (Inr ps, fs2) \<Rightarrow> (Inr (path_resolve wd [kotlinSrcOutDir, file] # ps), fs2)))"

text \<open>
  The callback of \<open>['index.kt', ...(result.chunks || [])].forEach\<close>;
  \<open>kotlinChangedFiles\<close> is the array the callback pushes onto.
\<close>

fun chunks_forEach ::
  "string \<Rightarrow> string \<Rightarrow> string \<Rightarrow> string \<Rightarrow> string list \<Rightarrow> string list \<Rightarrow> files
     \<Rightarrow> (error + string list) \<times> files" where
  "chunks_forEach wd kotlinSrcOutDir kotlinDexOutDir outDir [] kotlinChangedFiles fs =
     (Inr kotlinChangedFiles, fs)"
| "chunks_forEach wd kotlinSrcOutDir kotlinDexOutDir outDir (chunk # rest) kotlinChangedFiles fs =
     (let chunkFile = path_resolve wd [kotlinSrcOutDir, chunk] in
      if chunkFile \<notin> set kotlinChangedFiles then
        (let dexFile = resolveDexByKotlinFile wd kotlinDexOutDir chunk in
         if existsSync fs dexFile then
           (let targetDexFile = resolveDexByKotlinFile wd outDir chunk in
            if \<not> existsSync fs targetDexFile then
              (case copySync fs dexFile targetDexFile of
                 (Inl e, fs1) \<Rightarrow> (Inl e, fs1)
               | (Inr u, fs1) \<Rightarrow>
                   chunks_forEach wd kotlinSrcOutDir kotlinDexOutDir outDir rest
                     kotlinChangedFiles fs1)
            else chunks_forEach wd kotlinSrcOutDir kotlinDexOutDir outDir rest
                   kotlinChangedFiles fs)
         else chunks_forEach wd kotlinSrcOutDir kotlinDexOutDir outDir rest
                (kotlinChangedFiles @ [chunkFile]) fs)
      else chunks_forEach wd kotlinSrcOutDir kotlinDexOutDir outDir rest kotlinChangedFiles fs)"

definition chunk_names :: "RunKotlinDevResult \<Rightarrow> string list" where
  "chunk_names result = ''index.kt'' # (case chunks result of None \<Rightarrow> [] | Some cs \<Rightarrow> cs)"

definition parseKotlinChangedFiles ::
  "string \<Rightarrow> RunKotlinDevResult \<Rightarrow> string \<Rightarrow> string \<Rightarrow> string \<Rightarrow> files
     \<Rightarrow> (error + string list) \<times> files" where
  "parseKotlinChangedFiles wd result kotlinSrcOutDir kotlinDexOutDir outDir fs =
     (case changed_map wd kotlinSrcOutDir kotlinDexOutDir (changed result) fs of
        (Inl e, fs1) \<Rightarrow> (Inl e, fs1)
      | (Inr kotlinChangedFiles, fs1) \<Rightarrow>
          chunks_forEach wd kotlinSrcOutDir kotlinDexOutDir outDir (chunk_names result)
            kotlinChangedFiles fs1)"

section \<open>The dex artifact mirror\<close>

fun syncDexList ::
  "string \<Rightarrow> string list \<Rightarrow> string \<Rightarrow> string \<Rightarrow> files \<Rightarrow> (error + unit) \<times> files" where
  "syncDexList wd [] kotlinDexOutDir outDir fs = (Inr (), fs)"
| "syncDexList wd (dex # rest) kotlinDexOutDir outDir fs =
     (let dexFile = path_resolve wd [kotlinDexOutDir, dex];
          targetDexFile = path_resolve wd [outDir, dex] in
      case copySync fs dexFile targetDexFile of
        (Inl e, fs1) \<Rightarrow> (Inl e, fs1)
      | (Inr u, fs1) \<Rightarrow> syncDexList wd rest kotlinDexOutDir outDir fs1)"

section \<open>The development cycle\<close>

text \<open>
  \<open>runKotlinDev\<close>. A thrown value is \<open>Inl\<close>; the world is returned in either case,
  as it stands when the function returns or throws. \<open>result.filename!\<close> is handed
  to \<open>path.resolve\<close>, which throws a \<open>TypeError\<close> on \<open>undefined\<close>. \<open>if (msg)\<close> is
  false for an absent message and for the empty string, and \<open>if (manifest)\<close> is
  false for \<open>undefined\<close> and for a parsed value that is not \<open>truthy\<close>.
  \<open>if (!code && data)\<close>
  takes the success branch when the code is zero and the data is present; the
  \<open>case\<close> on \<open>if code r = 0 then data r else None\<close> is that test, with the data at
  hand in the branch. The wait for the stderr listener changes nothing that is kept
  here.
\<close>

definition runKotlinDev ::
  "environment \<Rightarrow> CompileAppOptions \<Rightarrow> RunKotlinDevResult \<Rightarrow> world
     \<Rightarrow> (error + RunKotlinDevResult) \<times> world" where
  "runKotlinDev env options result0 w =
     (let result = result0\<lparr>type := Some ''kotlin''\<rparr>;
          wd = cwd env;
          kotlinRootOutDir = kotlinDir env (outputDir options);
          kotlinDexOutDir = kotlinDexDir wd kotlinRootOutDir;
          kotlinSrcOutDir = kotlinSrcDir wd kotlinRootOutDir in
      case parseKotlinChangedFiles wd result kotlinSrcOutDir kotlinDexOutDir
             (outputDir options) (files w) of
        (Inl e, fs1) \<Rightarrow> (Inl e, w\<lparr>files := fs1\<rparr>)
      | (Inr kotlinChangedFiles, fs1) \<Rightarrow>
          (case filename result of
             None \<Rightarrow> (Inl TypeError, w\<lparr>files := fs1\<rparr>)
           | Some name \<Rightarrow>
               (let kotlinMainFile = path_resolve wd [kotlinSrcOutDir, name] in
                if kotlinChangedFiles \<noteq> [] \<and> existsSync fs1 kotlinMainFile then
                  (case compilerServer env of
                     None \<Rightarrow> (Inl RunExtensionMissing, w\<lparr>files := fs1\<rparr>)
                   | Some server \<Rightarrow>
                       (let kotlinClassOutDir = kotlinClassDir wd kotlinRootOutDir;
                            opts = \<lparr>kotlincFiles = kotlinChangedFiles,
                                    kotlinOutDir = kotlinClassOutDir,
                                    dexOutDir = kotlinDexOutDir,
                                    srcInputDir = kotlinSrcOutDir\<rparr>;
                            result1 = result\<lparr>kotlinc := True\<rparr> in
                        case compile server opts (inputDir options) fs1 of
                          (r, fs2) \<Rightarrow>
                            (let w2 = w\<lparr>files := fs2,
                                        driver_calls :=
                                          driver_calls w @ [(opts, inputDir options)]\<rparr> in
                             case (if code r = 0 then data r else None) of
                               Some d \<Rightarrow>
                                 (case syncDexList wd (dexList d) kotlinDexOutDir
                                         (outputDir options) fs2 of
                                    (Inl e, fs3) \<Rightarrow> (Inl e, w2\<lparr>files := fs3\<rparr>)
                                  | (Inr u, fs3) \<Rightarrow>
                                      (Inr (result1\<lparr>changed := dexList d\<rparr>),
                                       w2\<lparr>files := fs3\<rparr>))
                             | None \<Rightarrow>
                                 (case (if changed result1 \<noteq> [] then
                                          (case readKotlinManifestJson (JSON_parse env) wd
                                                  kotlinSrcOutDir fs2 of
                                             Inl e \<Rightarrow> Inl e
                                           | Inr None \<Rightarrow> Inr (result1\<lparr>changed := []\<rparr>, fs2)
                                           | Inr (Some manifest) \<Rightarrow>
                                               if truthy manifest then
                                                 (case delete_each (changed result1) manifest of
                                                    Inl e \<Rightarrow> Inl e
                                                  | Inr manifest' \<Rightarrow>
                                                      Inr (result1\<lparr>changed := []\<rparr>,
                                                           writeKotlinManifestJson wd
                                                             kotlinSrcOutDir manifest' fs2))
                                               else Inr (result1\<lparr>changed := []\<rparr>, fs2))
                                        else Inr (result1, fs2)) of
                                    Inl e \<Rightarrow> (Inl e, w2)
                                  | Inr (result2, fs3) \<Rightarrow>
                                      (Inr result2,
                                       w2\<lparr>files := fs3,
                                          console :=
                                            console w2 @
                                              (case msg r of
                                                 None \<Rightarrow> []
                                               | Some m \<Rightarrow> if m = [] then [] else [m])\<rparr>)))))
                else (Inr result, w\<lparr>files := fs1\<rparr>))))"

section \<open>Names for the parts of one cycle\<close>

text \<open>
  The directories \<open>runKotlinDev\<close> derives from its options, the manifest file, the
  resolver call it makes and the request it sends to the driver, named so that the
  statements below can speak of them.
\<close>

definition srcOutDirOf :: "environment \<Rightarrow> CompileAppOptions \<Rightarrow> string" where
  "srcOutDirOf env options = kotlinSrcDir (cwd env) (kotlinDir env (outputDir options))"

definition dexOutDirOf :: "environment \<Rightarrow> CompileAppOptions \<Rightarrow> string" where
  "dexOutDirOf env options = kotlinDexDir (cwd env) (kotlinDir env (outputDir options))"

definition classOutDirOf :: "environment \<Rightarrow> CompileAppOptions \<Rightarrow> string" where
  "classOutDirOf env options = kotlinClassDir (cwd env) (kotlinDir env (outputDir options))"

definition manifestFileOf :: "environment \<Rightarrow> CompileAppOptions \<Rightarrow> string" where
  "manifestFileOf env options = path_resolve (cwd env) [srcOutDirOf env options, ''.manifest.json'']"

definition mainFileOf :: "environment \<Rightarrow> CompileAppOptions \<Rightarrow> string \<Rightarrow> string" where
  "mainFileOf env options name = path_resolve (cwd env) [srcOutDirOf env options, name]"

definition resolveChangeSet ::
  "environment \<Rightarrow> CompileAppOptions \<Rightarrow> RunKotlinDevResult \<Rightarrow> files
     \<Rightarrow> (error + string list) \<times> files" where
  "resolveChangeSet env options result fs =
     parseKotlinChangedFiles (cwd env) result (srcOutDirOf env options) (dexOutDirOf env options)
       (outputDir options) fs"

definition driverRequest :: "environment \<Rightarrow> CompileAppOptions \<Rightarrow> string list \<Rightarrow> CompileOptions" where
  "driverRequest env options kotlinChangedFiles =
     \<lparr>kotlincFiles = kotlinChangedFiles,
      kotlinOutDir = classOutDirOf env options,
      dexOutDir = dexOutDirOf env options,
      srcInputDir = srcOutDirOf env options\<rparr>"

text \<open>
  The cached artifact of a Kotlin file, and the cached and the deployed copy of an
  entry of the driver's dex list.
\<close>

definition cachedDex :: "environment \<Rightarrow> CompileAppOptions \<Rightarrow> string \<Rightarrow> string" where
  "cachedDex env options kotlinFile =
     resolveDexByKotlinFile (cwd env) (dexOutDirOf env options) kotlinFile"

definition cachedArtifact :: "environment \<Rightarrow> CompileAppOptions \<Rightarrow> string \<Rightarrow> string" where
  "cachedArtifact env options dex = path_resolve (cwd env) [dexOutDirOf env options, dex]"

definition outputArtifact :: "environment \<Rightarrow> CompileAppOptions \<Rightarrow> string \<Rightarrow> string" where
  "outputArtifact env options dex = path_resolve (cwd env) [outputDir options, dex]"

text \<open>What \<open>if (msg) console.error(msg)\<close> writes.\<close>

definition logged :: "string option \<Rightarrow> string list" where
  "logged m = (case m of None \<Rightarrow> [] | Some t \<Rightarrow> if t = [] then [] else [t])"

section \<open>A parser for JSON texts\<close>

text \<open>
  The sample project below needs a \<open>JSON.parse\<close>. This one follows the JSON
  grammar: white space, the names \<open>null\<close>, \<open>true\<close> and \<open>false\<close>, numbers, strings with
  their escapes, arrays and objects, and nothing after the value.
\<close>

text \<open>The tokens of a JSON text.\<close>

datatype token =
    LBrace | RBrace | LBracket | RBracket | Colon | Comma
  | TString jsstring | TNumber int int | TTrue | TFalse | TNull

text \<open>
  The lexer reads one character at a time. Its state says what it is in the middle
  of: a literal name with the characters still to come, a string with the code
  units read so far (last first), an escape, the hex digits of a \<open>\\u\<close> escape,
  or one of the places of a number, with its sign, digits and exponent.
\<close>

datatype lexer =
    Idle
  | Word string token
  | Str jsstring
  | Esc jsstring
  | Uni jsstring "nat list"
  | Minus
  | IntZero bool
  | IntDigits bool int
  | Dot bool int
  | Frac bool int int
  | ExpStart bool int int
  | ExpSign bool int int bool
  | ExpDigits bool int int bool int

definition digit_of :: "char \<Rightarrow> int option" where
  "digit_of c =
     (let n = of_char c in if (48::int) \<le> n \<and> n \<le> 57 then Some (n - 48) else None)"

definition hex_of :: "char \<Rightarrow> nat option" where
  "hex_of c =
     (let n = of_char c in
      if (48::nat) \<le> n \<and> n \<le> 57 then Some (n - 48)
      else if 65 \<le> n \<and> n \<le> 70 then Some (n - 55)
      else if 97 \<le> n \<and> n \<le> 102 then Some (n - 87)
      else None)"

definition number_token :: "bool \<Rightarrow> int \<Rightarrow> int \<Rightarrow> bool \<Rightarrow> int \<Rightarrow> token" where
  "number_token negative mantissa fraction_digits exp_negative exponent =
     TNumber (if negative then - mantissa else mantissa)
       ((if exp_negative then - exponent else exponent) - fraction_digits)"

text \<open>
  Between tokens: white space is a space, a tab, a line feed or a carriage return.
\<close>

definition lex_idle :: "char \<Rightarrow> (lexer \<times> token list) option" where
  "lex_idle c =
     (if c = CHR '' '' \<or> c = CHR 0x09 \<or> c = CHR 0x0A \<or> c = CHR 0x0D then Some (Idle, [])
      else if c = CHR ''{'' then Some (Idle, [LBrace])
      else if c = CHR ''}'' then Some (Idle, [RBrace])
      else if c = CHR ''['' then Some (Idle, [LBracket])
      else if c = CHR '']'' then Some (Idle, [RBracket])
      else if c = CHR '':'' then Some (Idle, [Colon])
      else if c = CHR '','' then Some (Idle, [Comma])
      else if c = CHR 0x22 then Some (Str [], [])
      else if c = CHR ''-'' then Some (Minus, [])
      else if c = CHR ''0'' then Some (IntZero False, [])
      else if c = CHR ''t'' then Some (Word ''rue'' TTrue, [])
      else if c = CHR ''f'' then Some (Word ''alse'' TFalse, [])
      else if c = CHR ''n'' then Some (Word ''ull'' TNull, [])
      else (case digit_of c of Some d \<Rightarrow> Some (IntDigits False d, []) | None \<Rightarrow> None))"

text \<open>A number ends at the first character that cannot continue it.\<close>

definition lex_after :: "token \<Rightarrow> char \<Rightarrow> (lexer \<times> token list) option" where
  "lex_after t c = map_option (\<lambda>(l, ts). (l, t # ts)) (lex_idle c)"

fun lex_step :: "lexer \<Rightarrow> char \<Rightarrow> (lexer \<times> token list) option" where
  "lex_step Idle c = lex_idle c"
| "lex_step (Word rest t) c =
     (case rest of
        [] \<Rightarrow> None
      | r # rs \<Rightarrow> if c = r then (if rs = [] then Some (Idle, [t]) else Some (Word rs t, []))
                 else None)"
| "lex_step (Str acc) c =
     (if c = CHR 0x22 then Some (Idle, [TString (rev acc)])
      else if c = CHR 0x5C then Some (Esc acc, [])
      else if (of_char c :: nat) < 32 then None
      else Some (Str (of_char c # acc), []))"
| "lex_step (Esc acc) c =
     (if c = CHR 0x22 \<or> c = CHR 0x5C \<or> c = CHR ''/'' then Some (Str (of_char c # acc), [])
      else if c = CHR ''b'' then Some (Str (8 # acc), [])
      else if c = CHR ''f'' then Some (Str (12 # acc), [])
      else if c = CHR ''n'' then Some (Str (10 # acc), [])
      else if c = CHR ''r'' then Some (Str (13 # acc), [])
      else if c = CHR ''t'' then Some (Str (9 # acc), [])
      else if c = CHR ''u'' then Some (Uni acc [], [])
      else None)"
| "lex_step (Uni acc ds) c =
     (case hex_of c of
        None \<Rightarrow> None
      | Some d \<Rightarrow>
          if length ds = 3 then Some (Str (foldl (\<lambda>v x. 16 * v + x) 0 (ds @ [d]) # acc), [])
          else Some (Uni acc (ds @ [d]), []))"
| "lex_step Minus c =
     (if c = CHR ''0'' then Some (IntZero True, [])
      else (case digit_of c of Some d \<Rightarrow> Some (IntDigits True d, []) | None \<Rightarrow> None))"
| "lex_step (IntZero neg) c =
     (if c = CHR ''.'' then Some (Dot neg 0, [])
      else if c = CHR ''e'' \<or> c = CHR ''E'' then Some (ExpStart neg 0 0, [])
      else lex_after (number_token neg 0 0 False 0) c)"
| "lex_step (IntDigits neg m) c =
     (case digit_of c of
        Some d \<Rightarrow> Some (IntDigits neg (10 * m + d), [])
      | None \<Rightarrow>
          if c = CHR ''.'' then Some (Dot neg m, [])
          else if c = CHR ''e'' \<or> c = CHR ''E'' then Some (ExpStart neg m 0, [])
          else lex_after (number_token neg m 0 False 0) c)"
| "lex_step (Dot neg m) c =
     (case digit_of c of Some d \<Rightarrow> Some (Frac neg (10 * m + d) 1, []) | None \<Rightarrow> None)"
| "lex_step (Frac neg m f) c =
     (case digit_of c of
        Some d \<Rightarrow> Some (Frac neg (10 * m + d) (f + 1), [])
      | None \<Rightarrow>
          if c = CHR ''e'' \<or> c = CHR ''E'' then Some (ExpStart neg m f, [])
          else lex_after (number_token neg m f False 0) c)"
| "lex_step (ExpStart neg m f) c =
     (if c = CHR ''+'' then Some (ExpSign neg m f False, [])
      else if c = CHR ''-'' then Some (ExpSign neg m f True, [])
      else (case digit_of c of Some d \<Rightarrow> Some (ExpDigits neg m f False d, []) | None \<Rightarrow> None))"
| "lex_step (ExpSign neg m f eneg) c =
     (case digit_of c of Some d \<Rightarrow> Some (ExpDigits neg m f eneg d, []) | None \<Rightarrow> None)"
| "lex_step (ExpDigits neg m f eneg x) c =
     (case digit_of c of
        Some d \<Rightarrow> Some (ExpDigits neg m f eneg (10 * x + d), [])
      | None \<Rightarrow> lex_after (number_token neg m f eneg x) c)"

fun lex_end :: "lexer \<Rightarrow> token list option" where
  "lex_end Idle = Some []"
| "lex_end (IntZero neg) = Some [number_token neg 0 0 False 0]"
| "lex_end (IntDigits neg m) = Some [number_token neg m 0 False 0]"
| "lex_end (Frac neg m f) = Some [number_token neg m f False 0]"
| "lex_end (ExpDigits neg m f eneg x) = Some [number_token neg m f eneg x]"
| "lex_end _ = None"

fun lex :: "lexer \<Rightarrow> string \<Rightarrow> token list option" where
  "lex l [] = lex_end l"
| "lex l (c # cs) =
     (case lex_step l c of
        None \<Rightarrow> None
      | Some (l', ts) \<Rightarrow> map_option (\<lambda>rest. ts @ rest) (lex l' cs))"

text \<open>
  A new property of an object takes its place in the enumeration order: the array
  indices first, in ascending order, then the other keys in the order they were
  created. A key that is there already keeps its place and takes the new value.
\<close>

fun place_index :: "int \<Rightarrow> jsstring \<Rightarrow> json \<Rightarrow> (jsstring \<times> json) list \<Rightarrow> (jsstring \<times> json) list" where
  "place_index n k v [] = [(k, v)]"
| "place_index n k v (p # ps) =
     (case array_index (fst p) of
        None \<Rightarrow> (k, v) # p # ps
      | Some i \<Rightarrow> if n < i then (k, v) # p # ps else p # place_index n k v ps)"

definition define_property :: "jsstring \<Rightarrow> json \<Rightarrow> (jsstring \<times> json) list \<Rightarrow> (jsstring \<times> json) list" where
  "define_property k v kvs =
     (if k \<in> fst ` set kvs then map (\<lambda>p. if fst p = k then (k, v) else p) kvs
      else (case array_index k of
              None \<Rightarrow> kvs @ [(k, v)]
            | Some n \<Rightarrow> place_index n k v kvs))"

text \<open>
  The parser keeps the arrays and objects that are still open on a stack, and knows
  what may come next.
\<close>

datatype frame =
    InArray "json list"
  | InObject "(jsstring \<times> json) list"
  | InMember "(jsstring \<times> json) list" jsstring

datatype expecting =
    AValue | AValueOrClose | AKeyOrClose | AKey | AColon | AfterValue | Finished json

fun complete :: "json \<Rightarrow> frame list \<Rightarrow> (expecting \<times> frame list) option" where
  "complete v [] = Some (Finished v, [])"
| "complete v (InArray xs # st) = Some (AfterValue, InArray (v # xs) # st)"
| "complete v (InMember kvs k # st) = Some (AfterValue, InObject (define_property k v kvs) # st)"
| "complete v (InObject kvs # st) = None"

fun open_value :: "token \<Rightarrow> frame list \<Rightarrow> (expecting \<times> frame list) option" where
  "open_value (TString s) st = complete (JString s) st"
| "open_value (TNumber m e) st = complete (JNumber m e) st"
| "open_value TTrue st = complete (JBool True) st"
| "open_value TFalse st = complete (JBool False) st"
| "open_value TNull st = complete JNull st"
| "open_value LBracket st = Some (AValueOrClose, InArray [] # st)"
| "open_value LBrace st = Some (AKeyOrClose, InObject [] # st)"
| "open_value _ st = None"

fun open_key :: "token \<Rightarrow> frame list \<Rightarrow> (expecting \<times> frame list) option" where
  "open_key (TString k) (InObject kvs # st) = Some (AColon, InMember kvs k # st)"
| "open_key _ _ = None"

fun close_array :: "frame list \<Rightarrow> (expecting \<times> frame list) option" where
  "close_array (InArray xs # st) = complete (JArray (rev xs)) st"
| "close_array _ = None"

fun close_object :: "frame list \<Rightarrow> (expecting \<times> frame list) option" where
  "close_object (InObject kvs # st) = complete (JObject kvs) st"
| "close_object _ = None"

fun parse_step :: "expecting \<Rightarrow> frame list \<Rightarrow> token \<Rightarrow> (expecting \<times> frame list) option" where
  "parse_step AValue st t = open_value t st"
| "parse_step AValueOrClose st t = (if t = RBracket then close_array st else open_value t st)"
| "parse_step AKeyOrClose st t = (if t = RBrace then close_object st else open_key t st)"
| "parse_step AKey st t = open_key t st"
| "parse_step AColon st t = (if t = Colon then Some (AValue, st) else None)"
| "parse_step AfterValue st t =
     (if t = Comma then
        (case st of
           InArray xs # rest \<Rightarrow> Some (AValue, st)
         | InObject kvs # rest \<Rightarrow> Some (AKey, st)
         | _ \<Rightarrow> None)
      else if t = RBracket then close_array st
      else if t = RBrace then close_object st
      else None)"
| "parse_step (Finished v) st t = None"

fun parse_tokens :: "expecting \<Rightarrow> frame list \<Rightarrow> token list \<Rightarrow> json option" where
  "parse_tokens e st [] = (case e of Finished v \<Rightarrow> Some v | _ \<Rightarrow> None)"
| "parse_tokens e st (t # ts) =
     (case parse_step e st t of
        None \<Rightarrow> None
      | Some (e', st') \<Rightarrow> parse_tokens e' st' ts)"

definition JSON_parse_text :: "string \<Rightarrow> json option" where
  "JSON_parse_text s =
     (case lex Idle s of None \<Rightarrow> None | Some ts \<Rightarrow> parse_tokens AValue [] ts)"

section \<open>A sample project\<close>

text \<open>
  A project built into \<open>/p/out\<close> with the default cache root \<open>/p/.kotlin\<close>. The
  transpiler reports \<open>b.kt\<close> as changed and \<open>a.kt\<close> as a chunk. The cache holds a
  stale dex of \<open>b.kt\<close> and a current dex of \<open>index.kt\<close>, none of \<open>a.kt\<close>; the output
  directory holds one artifact of an earlier build; the manifest, as the transpiler
  wrote it, lists all three files.
\<close>

definition sample_manifest :: string where
  \<open>sample_manifest = ''{"a.kt":"h1","b.kt":"h2","index.kt":"h3"}''\<close>

definition sample_files :: files where
  "sample_files =
     (\<lambda>p. None)
       (''/p/.kotlin/src/index.kt'' \<mapsto> Raw ''fun main() {}'',
        ''/p/.kotlin/src/.manifest.json'' \<mapsto> Raw sample_manifest,
        ''/p/.kotlin/dex/b/classes.dex'' \<mapsto> Raw ''dex of the old b'',
        ''/p/.kotlin/dex/index/classes.dex'' \<mapsto> Raw ''dex of index'',
        ''/p/out/b/classes.dex'' \<mapsto> Raw ''dex of the old b'')"

definition sample_world :: world where
  "sample_world = \<lparr>files = sample_files, console = [], driver_calls = []\<rparr>"

definition sample_options :: CompileAppOptions where
  "sample_options = \<lparr>inputDir = ''/p/in'', outputDir = ''/p/out''\<rparr>"

definition sample_result :: RunKotlinDevResult where
  "sample_result =
     \<lparr>type = None, filename = Some ''index.kt'', changed = [''b.kt''],
      chunks = Some [''a.kt''], kotlinc = False\<rparr>"

text \<open>A driver that rejects the sources, and one that produces two artifacts.\<close>

definition failing_server :: KotlinCompilerServer where
  "failing_server =
     \<lparr>compile = (\<lambda>opts dir fs. (\<lparr>code = 1, msg = Some ''type error'', data = None\<rparr>, fs))\<rparr>"

definition working_server :: KotlinCompilerServer where
  "working_server =
     \<lparr>compile = (\<lambda>opts dir fs.
        (\<lparr>code = 0, msg = None,
          data = Some \<lparr>dexList = [''b/classes.dex'', ''a/classes.dex'']\<rparr>\<rparr>,
         fs(''/p/.kotlin/dex/b/classes.dex'' \<mapsto> Raw ''dex of b'',
            ''/p/.kotlin/dex/a/classes.dex'' \<mapsto> Raw ''dex of a'')))\<rparr>"

definition sample_env :: "KotlinCompilerServer option \<Rightarrow> environment" where
  "sample_env server =
     \<lparr>cwd = ''/w'', UNI_APP_X_CACHE_DIR = None, compilerServer = server,
      JSON_parse = JSON_parse_text\<rparr>"

section \<open>Facts about the library model and the loops\<close>

lemma resolve_loop_absolute:
  "isAbsolute wd \<Longrightarrow> snd (resolve_loop (ps @ [wd]) acc)"
  by (induction ps arbitrary: acc) (auto simp: isAbsolute_def split: list.splits)

lemma path_resolve_absolute:
  assumes "isAbsolute wd"
  shows "isAbsolute (path_resolve wd args)"
proof -
  obtain rp ab where loop: "resolve_loop (rev args @ [wd]) [] = (rp, ab)"
    by (cases "resolve_loop (rev args @ [wd]) []")
  with resolve_loop_absolute [OF assms, of "rev args" "[]"] have "ab" by simp
  with loop show ?thesis
    by (simp add: path_resolve_def isAbsolute_def Let_def)
qed

lemma changed_map_eq:
  "changed_map wd src dex fl fs =
     (Inr (map (\<lambda>f. path_resolve wd [src, f]) fl),
      (\<lambda>p. if p \<in> (resolveDexByKotlinFile wd dex) ` set fl then None else fs p))"
proof (induction fl arbitrary: fs)
  case Nil
  show ?case by simp
next
  case (Cons f fl)
  show ?case
    by (auto simp: Cons Let_def existsSync_def unlinkSync_def fun_eq_iff)
qed

lemma chunks_forEach_returns:
  "\<exists>kcf' fs'. chunks_forEach wd src dex out cs kcf fs = (Inr kcf', fs')"
  by (induction cs arbitrary: kcf fs)
     (auto simp: Let_def copySync_def existsSync_def split: option.splits)

lemma chunks_forEach_keeps:
  "chunks_forEach wd src dex out cs kcf fs = (r, fs') \<Longrightarrow> fs p \<noteq> None \<Longrightarrow> fs' p = fs p"
proof (induction cs arbitrary: kcf fs)
  case Nil
  then show ?case by simp
next
  case (Cons c cs)
  then show ?case
    by (auto simp: Let_def copySync_def existsSync_def split: option.splits if_splits)
qed




lemma chunks_forEach_subset:
  "chunks_forEach wd src dex out cs kcf fs = (Inr kcf', fs') \<Longrightarrow>
     set kcf' \<subseteq> set kcf \<union> (\<lambda>c. path_resolve wd [src, c]) ` set cs"
proof (induction cs arbitrary: kcf fs)
  case Nil
  then show ?case by simp
next
  case (Cons c cs)
  then show ?case
    by (fastforce simp: Let_def copySync_def existsSync_def split: option.splits if_splits)
qed

lemma chunks_forEach_distinct:
  "chunks_forEach wd src dex out cs kcf fs = (Inr kcf', fs') \<Longrightarrow> distinct kcf \<Longrightarrow> distinct kcf'"
proof (induction cs arbitrary: kcf fs)
  case Nil
  then show ?case by simp
next
  case (Cons c cs)
  then show ?case
    by (fastforce simp: Let_def copySync_def existsSync_def split: option.splits if_splits)
qed



lemma syncDexList_keeps:
  "syncDexList wd dl dex out fs = (r, fs') \<Longrightarrow> fs p \<noteq> None \<Longrightarrow> fs' p \<noteq> None"
proof (induction dl arbitrary: fs)
  case Nil
  then show ?case by simp
next
  case (Cons d dl)
  then show ?case
    by (fastforce simp: Let_def copySync_def split: option.splits if_splits)
qed

lemma syncDexList_both:
  "syncDexList wd dl dex out fs = (Inr u, fs') \<Longrightarrow> d \<in> set dl \<Longrightarrow>
     fs' (path_resolve wd [dex, d]) \<noteq> None \<and> fs' (path_resolve wd [out, d]) \<noteq> None"
proof (induction dl arbitrary: fs)
  case Nil
  then show ?case by simp
next
  case (Cons a dl)
  show ?case
  proof (cases "d = a")
    case False
    with Cons.prems have "d \<in> set dl" by simp
    with Cons.prems(1) Cons.IH show ?thesis
      by (auto simp: Let_def copySync_def split: option.splits if_splits)
  next
    case True
    from Cons.prems(1) obtain c where
      rest: "syncDexList wd dl dex out (fs(path_resolve wd [out, a] \<mapsto> c)) = (Inr u, fs')"
      and src: "fs (path_resolve wd [dex, a]) = Some c"
      by (auto simp: Let_def copySync_def split: option.splits if_splits)
    from src have "(fs(path_resolve wd [out, a] \<mapsto> c)) (path_resolve wd [dex, a]) \<noteq> None"
      and "(fs(path_resolve wd [out, a] \<mapsto> c)) (path_resolve wd [out, a]) \<noteq> None"
      by simp_all
    with syncDexList_keeps [OF rest] True show ?thesis
      by blast
  qed
qed

lemma syncDexList_completes:
  "\<forall>d\<in>set dl. fs (path_resolve wd [dex, d]) \<noteq> None \<and>
       path_resolve wd [dex, d] \<noteq> path_resolve wd [out, d] \<Longrightarrow>
     \<exists>fs'. syncDexList wd dl dex out fs = (Inr (), fs')"
proof (induction dl arbitrary: fs)
  case Nil
  then show ?case by simp
next
  case (Cons a dl)
  then show ?case
    by (auto simp: Let_def copySync_def split: option.splits)
qed

lemma syncDexList_frame:
  "syncDexList wd dl dex out fs = (r, fs') \<Longrightarrow>
     p \<notin> (\<lambda>d. path_resolve wd [out, d]) ` set dl \<Longrightarrow> fs' p = fs p"
proof (induction dl arbitrary: fs)
  case Nil
  then show ?case by simp
next
  case (Cons a dl)
  then show ?case
    by (fastforce simp: Let_def copySync_def split: option.splits if_splits)
qed

lemma syncDexList_content:
  "syncDexList wd dl dex out fs = (Inr u, fs') \<Longrightarrow>
     distinct (map (\<lambda>d. path_resolve wd [out, d]) dl) \<Longrightarrow>
     \<forall>a\<in>set dl. \<forall>b\<in>set dl. path_resolve wd [dex, a] \<noteq> path_resolve wd [out, b] \<Longrightarrow>
     d \<in> set dl \<Longrightarrow>
     fs' (path_resolve wd [out, d]) = fs (path_resolve wd [dex, d])"
proof (induction dl arbitrary: fs)
  case Nil
  then show ?case by simp
next
  case (Cons a dl)
  from Cons.prems(1) obtain c where
    rest: "syncDexList wd dl dex out (fs(path_resolve wd [out, a] \<mapsto> c)) = (Inr u, fs')"
    and src: "fs (path_resolve wd [dex, a]) = Some c"
    by (auto simp: Let_def copySync_def split: option.splits if_splits)
  show ?case
  proof (cases "d \<in> set dl")
    case True
    from Cons.prems(2,3) have "distinct (map (\<lambda>d. path_resolve wd [out, d]) dl)"
      and "\<forall>a\<in>set dl. \<forall>b\<in>set dl. path_resolve wd [dex, a] \<noteq> path_resolve wd [out, b]"
      by simp_all
    from Cons.IH [OF rest this True]
    have "fs' (path_resolve wd [out, d]) =
        (fs(path_resolve wd [out, a] \<mapsto> c)) (path_resolve wd [dex, d])" .
    moreover from Cons.prems(3) True
    have "path_resolve wd [dex, d] \<noteq> path_resolve wd [out, a]"
      by simp
    ultimately show ?thesis
      by simp
  next
    case False
    with Cons.prems(4) have d: "d = a"
      by simp
    from Cons.prems(2) have "path_resolve wd [out, a] \<notin> (\<lambda>d. path_resolve wd [out, d]) ` set dl"
      by simp
    from syncDexList_frame [OF rest this] src d show ?thesis
      by simp
  qed
qed

lemma delete_each_object:
  "delete_each fl (JObject kvs) =
     Inr (JObject (filter (\<lambda>kv. fst kv \<notin> units ` set fl) kvs))"
proof (induction fl arbitrary: kvs)
  case Nil
  show ?case by simp
next
  case (Cons f fl)
  have "filter (\<lambda>kv. fst kv \<notin> units ` set fl) (filter (\<lambda>kv. fst kv \<noteq> units f) kvs)
      = filter (\<lambda>kv. fst kv \<notin> units ` set (f # fl)) kvs"
    by (auto intro: filter_cong)
  with Cons show ?case
    by simp
qed

lemma parse_ignores_type:
  "parseKotlinChangedFiles wd (result\<lparr>type := t\<rparr>) src dex out fs =
     parseKotlinChangedFiles wd result src dex out fs"
  by (simp add: parseKotlinChangedFiles_def chunk_names_def split: prod.splits sum.splits)

lemma parse_returns:
  "\<exists>cs fs'. parseKotlinChangedFiles wd result src dex out fs = (Inr cs, fs')"
  by (simp add: parseKotlinChangedFiles_def changed_map_eq chunks_forEach_returns)

lemma parse_split:
  assumes "parseKotlinChangedFiles wd result src dex out fs = (r, fs')"
  shows "\<exists>cs. r = Inr cs \<and>
           chunks_forEach wd src dex out (chunk_names result)
             (map (\<lambda>f. path_resolve wd [src, f]) (changed result))
             (\<lambda>p. if p \<in> resolveDexByKotlinFile wd dex ` set (changed result) then None else fs p)
           = (Inr cs, fs')"
  using assms parse_returns [of wd result src dex out fs]
  by (auto simp: parseKotlinChangedFiles_def changed_map_eq)

lemma resolver_keeps_existing:
  assumes "resolveChangeSet env options result fs = (r, fs1)"
    and "fs p = Some c"
    and "p \<notin> cachedDex env options ` set (changed result)"
  shows "fs1 p = Some c"
proof -
  let ?start = "\<lambda>q. if q \<in> resolveDexByKotlinFile (cwd env) (dexOutDirOf env options) `
                        set (changed result) then None else fs q"
  from assms(1) parse_split obtain cs where
    run: "chunks_forEach (cwd env) (srcOutDirOf env options) (dexOutDirOf env options)
            (outputDir options) (chunk_names result)
            (map (\<lambda>f. path_resolve (cwd env) [srcOutDirOf env options, f]) (changed result))
            ?start = (Inr cs, fs1)"
    unfolding resolveChangeSet_def by blast
  from assms(3) have "p \<notin> resolveDexByKotlinFile (cwd env) (dexOutDirOf env options) `
      set (changed result)"
    by (auto simp: cachedDex_def)
  with assms(2) have "?start p = Some c"
    by simp
  with chunks_forEach_keeps [OF run, of p] show ?thesis
    by simp
qed

text \<open>The paths of \<open>runKotlinDev\<close>, one lemma each.\<close>

lemma runKotlinDev_skip:
  assumes "resolveChangeSet env options result (files w) = (Inr cs, fs1)"
    and "filename result = Some name"
    and "cs = [] \<or> \<not> existsSync fs1 (mainFileOf env options name)"
  shows "runKotlinDev env options result w =
           (Inr (result\<lparr>type := Some ''kotlin''\<rparr>), w\<lparr>files := fs1\<rparr>)"
  using assms
  by (auto simp: runKotlinDev_def resolveChangeSet_def srcOutDirOf_def dexOutDirOf_def
        mainFileOf_def parse_ignores_type Let_def)

lemma runKotlinDev_no_server:
  assumes "resolveChangeSet env options result (files w) = (Inr cs, fs1)"
    and "filename result = Some name"
    and "cs \<noteq> []" and "existsSync fs1 (mainFileOf env options name)"
    and "compilerServer env = None"
  shows "runKotlinDev env options result w = (Inl RunExtensionMissing, w\<lparr>files := fs1\<rparr>)"
  using assms
  by (auto simp: runKotlinDev_def resolveChangeSet_def srcOutDirOf_def dexOutDirOf_def
        mainFileOf_def parse_ignores_type Let_def)

lemma runKotlinDev_success:
  assumes "resolveChangeSet env options result (files w) = (Inr cs, fs1)"
    and "filename result = Some name"
    and "cs \<noteq> []" and "existsSync fs1 (mainFileOf env options name)"
    and "compilerServer env = Some server"
    and "compile server (driverRequest env options cs) (inputDir options) fs1 = (r, fs2)"
    and "code r = 0" and "data r = Some d"
  shows "runKotlinDev env options result w =
           (case syncDexList (cwd env) (dexList d) (dexOutDirOf env options) (outputDir options) fs2 of
              (Inl e, fs3) \<Rightarrow>
                (Inl e, w\<lparr>files := fs3,
                           driver_calls := driver_calls w @
                             [(driverRequest env options cs, inputDir options)]\<rparr>)
            | (Inr u, fs3) \<Rightarrow>
                (Inr (result\<lparr>type := Some ''kotlin'', kotlinc := True, changed := dexList d\<rparr>),
                 w\<lparr>files := fs3,
                   driver_calls := driver_calls w @
                     [(driverRequest env options cs, inputDir options)]\<rparr>))"
  using assms
  by (auto simp: runKotlinDev_def resolveChangeSet_def srcOutDirOf_def dexOutDirOf_def
        classOutDirOf_def driverRequest_def mainFileOf_def parse_ignores_type Let_def
        split: prod.splits sum.splits)

lemma runKotlinDev_failure:
  assumes "resolveChangeSet env options result (files w) = (Inr cs, fs1)"
    and "filename result = Some name"
    and "cs \<noteq> []" and "existsSync fs1 (mainFileOf env options name)"
    and "compilerServer env = Some server"
    and "compile server (driverRequest env options cs) (inputDir options) fs1 = (r, fs2)"
    and "code r \<noteq> 0 \<or> data r = None"
  shows "runKotlinDev env options result w =
           (if changed result \<noteq> [] then
              (case readKotlinManifestJson (JSON_parse env) (cwd env) (srcOutDirOf env options) fs2 of
                 Inl e \<Rightarrow>
                   (Inl e,
                    w\<lparr>files := fs2,
                      driver_calls := driver_calls w @
                        [(driverRequest env options cs, inputDir options)]\<rparr>)
               | Inr None \<Rightarrow>
                   (Inr (result\<lparr>type := Some ''kotlin'', kotlinc := True, changed := []\<rparr>),
                    w\<lparr>files := fs2,
                      driver_calls := driver_calls w @
                        [(driverRequest env options cs, inputDir options)],
                      console := console w @ logged (msg r)\<rparr>)
               | Inr (Some manifest) \<Rightarrow>
                   if truthy manifest then
                     (case delete_each (changed result) manifest of
                        Inl e \<Rightarrow>
                          (Inl e,
                           w\<lparr>files := fs2,
                             driver_calls := driver_calls w @
                               [(driverRequest env options cs, inputDir options)]\<rparr>)
                      | Inr manifest' \<Rightarrow>
                          (Inr (result\<lparr>type := Some ''kotlin'', kotlinc := True, changed := []\<rparr>),
                           w\<lparr>files := fs2(manifestFileOf env options \<mapsto> Json manifest'),
                             driver_calls := driver_calls w @
                               [(driverRequest env options cs, inputDir options)],
                             console := console w @ logged (msg r)\<rparr>))
                   else
                     (Inr (result\<lparr>type := Some ''kotlin'', kotlinc := True, changed := []\<rparr>),
                      w\<lparr>files := fs2,
                        driver_calls := driver_calls w @
                          [(driverRequest env options cs, inputDir options)],
                        console := console w @ logged (msg r)\<rparr>))
            else
              (Inr (result\<lparr>type := Some ''kotlin'', kotlinc := True\<rparr>),
               w\<lparr>files := fs2,
                 driver_calls := driver_calls w @
                   [(driverRequest env options cs, inputDir options)],
                 console := console w @ logged (msg r)\<rparr>))"
  using assms
  by (auto simp: runKotlinDev_def resolveChangeSet_def srcOutDirOf_def dexOutDirOf_def
        classOutDirOf_def driverRequest_def mainFileOf_def manifestFileOf_def
        parse_ignores_type Let_def writeKotlinManifestJson_def logged_def
        split: option.splits sum.splits)

lemma runKotlinDev_calls_driver:
  assumes "resolveChangeSet env options result (files w) = (Inr cs, fs1)"
    and "filename result = Some name"
    and "cs \<noteq> []" and "existsSync fs1 (mainFileOf env options name)"
    and "compilerServer env = Some server"
  shows "driver_calls (snd (runKotlinDev env options result w)) =
           driver_calls w @ [(driverRequest env options cs, inputDir options)]"
proof -
  obtain r fs2 where
    answer: "compile server (driverRequest env options cs) (inputDir options) fs1 = (r, fs2)"
    by (cases "compile server (driverRequest env options cs) (inputDir options) fs1")
  show ?thesis
  proof (cases "code r = 0 \<and> data r \<noteq> None")
    case True
    then obtain d where "code r = 0" and "data r = Some d"
      by auto
    from runKotlinDev_success [OF assms answer this] show ?thesis
      by (simp split: prod.splits sum.splits)
  next
    case False
    then have "code r \<noteq> 0 \<or> data r = None"
      by simp
    from runKotlinDev_failure [OF assms answer this] show ?thesis
      by (simp split: option.splits sum.splits)
  qed
qed

text \<open>The sample project, evaluated.\<close>

lemma sample_resolved:
  "resolveChangeSet (sample_env s) sample_options sample_result (files sample_world)
     = (Inr [''/p/.kotlin/src/b.kt'', ''/p/.kotlin/src/a.kt''],
        snd (resolveChangeSet (sample_env s) sample_options sample_result sample_files))"
proof -
  have "fst (resolveChangeSet (sample_env s) sample_options sample_result sample_files)
      = Inr [''/p/.kotlin/src/b.kt'', ''/p/.kotlin/src/a.kt'']"
    by code_simp
  then show ?thesis
    by (simp add: prod_eq_iff sample_world_def)
qed

lemma sample_filename: "filename sample_result = Some ''index.kt''"
  by (simp add: sample_result_def)

lemma sample_main_exists:
  "existsSync (snd (resolveChangeSet (sample_env s) sample_options sample_result sample_files))
     (mainFileOf (sample_env s) sample_options ''index.kt'')"
  by code_simp

lemma sample_server: "compilerServer (sample_env (Some server)) = Some server"
  by (simp add: sample_env_def)

lemma sample_failing_answer:
  "compile failing_server request dir fs = (\<lparr>code = 1, msg = Some ''type error'', data = None\<rparr>, fs)"
  by (simp add: failing_server_def)

lemma sample_working_answer:
  "compile working_server request dir fs =
     (\<lparr>code = 0, msg = None,
       data = Some \<lparr>dexList = [''b/classes.dex'', ''a/classes.dex'']\<rparr>\<rparr>,
      fs(''/p/.kotlin/dex/b/classes.dex'' \<mapsto> Raw ''dex of b'',
         ''/p/.kotlin/dex/a/classes.dex'' \<mapsto> Raw ''dex of a''))"
  by (simp add: working_server_def)

lemma sample_manifest_file:
  "manifestFileOf (sample_env s) sample_options = ''/p/.kotlin/src/.manifest.json''"
  by code_simp

lemma sample_manifest_resolved:
  "snd (resolveChangeSet (sample_env s) sample_options sample_result sample_files)
     ''/p/.kotlin/src/.manifest.json''
   = Some (Raw sample_manifest)"
  by code_simp

lemma sample_manifest_parsed:
  "JSON_parse_text sample_manifest =
     Some (JObject [(units ''a.kt'', JString (units ''h1'')),
                    (units ''b.kt'', JString (units ''h2'')),
                    (units ''index.kt'', JString (units ''h3''))])"
  by code_simp

lemma sample_parse: "JSON_parse (sample_env s) = JSON_parse_text"
  by (simp add: sample_env_def)

lemma read_written:
  "readKotlinManifestJson parse (cwd env) (srcOutDirOf env options)
     (fs(manifestFileOf env options \<mapsto> Json v)) = Inr (Some (restore v))"
  by (simp add: readKotlinManifestJson_def manifestFileOf_def existsSync_def)

lemma read_absent:
  "fs (manifestFileOf env options) = None \<Longrightarrow>
     readKotlinManifestJson parse (cwd env) (srcOutDirOf env options) fs = Inr None"
  by (simp add: readKotlinManifestJson_def manifestFileOf_def existsSync_def)

lemma read_not_absent:
  "readKotlinManifestJson parse (cwd env) (srcOutDirOf env options) fs \<noteq> Inr None \<Longrightarrow>
     fs (manifestFileOf env options) \<noteq> None"
  using read_absent by blast


lemma sample_manifest_read:
  "readKotlinManifestJson (JSON_parse (sample_env s)) (cwd (sample_env s))
     (srcOutDirOf (sample_env s) sample_options)
     (snd (resolveChangeSet (sample_env s) sample_options sample_result sample_files))
   = Inr (Some (JObject [(units ''a.kt'', JString (units ''h1'')),
                         (units ''b.kt'', JString (units ''h2'')),
                         (units ''index.kt'', JString (units ''h3''))]))"
  by code_simp

section \<open>The claims\<close>

subsection \<open>C1: the manifest rollback after a failed compilation\<close>

text \<open>
  C1 says that after a failed cycle the persisted manifest has no entry for any file
  of the attempted change set. The failure branch deletes the keys of
  \<open>result.changed\<close>, the transpiler's list, and not those of \<open>kotlinChangedFiles\<close>:
  a file that is in the change set only because its dex is missing keeps its entry
  (the next cycle finds its dex still missing and compiles it again). The
  statement that holds, for a cycle whose driver failed: when the manifest file
  reads as a mapping, the cycle completes; if \<open>changed\<close> is not empty the file then
  holds that mapping without the keys of \<open>changed\<close> and with every other entry as
  it was, and if \<open>changed\<close> is empty the file is not touched; either way the
  manifest read back is a mapping with the old keys in the old order less those of
  \<open>changed\<close>, so no file of \<open>changed\<close> has an entry. When there is no manifest file,
  the cycle completes and creates none.
\<close>

theorem rollback_removes_changed_entries:
  assumes "resolveChangeSet env options result (files w) = (Inr cs, fs1)"
    and "filename result = Some name"
    and "cs \<noteq> []" and "existsSync fs1 (mainFileOf env options name)"
    and "compilerServer env = Some server"
    and "compile server (driverRequest env options cs) (inputDir options) fs1 = (r, fs2)"
    and "code r \<noteq> 0 \<or> data r = None"
  shows "(\<forall>manifest.
            readKotlinManifestJson (JSON_parse env) (cwd env) (srcOutDirOf env options) fs2
              = Inr (Some (JObject manifest)) \<longrightarrow>
            (\<exists>result' w'. runKotlinDev env options result w = (Inr result', w') \<and>
               (changed result \<noteq> [] \<longrightarrow>
                  files w' (manifestFileOf env options) =
                    Some (Json (JObject
                      (filter (\<lambda>kv. fst kv \<notin> units ` set (changed result)) manifest)))) \<and>
               (changed result = [] \<longrightarrow>
                  files w' (manifestFileOf env options) = fs2 (manifestFileOf env options)) \<and>
               (\<exists>kept.
                  readKotlinManifestJson (JSON_parse env) (cwd env) (srcOutDirOf env options)
                    (files w') = Inr (Some (JObject kept)) \<and>
                  map fst kept =
                    filter (\<lambda>k. k \<notin> units ` set (changed result)) (map fst manifest) \<and>
                  (\<forall>file\<in>set (changed result). units file \<notin> fst ` set kept)))) \<and>
         (fs2 (manifestFileOf env options) = None \<longrightarrow>
            (\<exists>result' w'. runKotlinDev env options result w = (Inr result', w') \<and>
               files w' (manifestFileOf env options) = None))"
proof -
  note run = runKotlinDev_failure [OF assms]
  let ?read = "readKotlinManifestJson (JSON_parse env) (cwd env) (srcOutDirOf env options)"
  let ?M = "manifestFileOf env options"
  let ?keep = "\<lambda>kv :: jsstring \<times> json. fst kv \<notin> units ` set (changed result)"
  have present: "\<exists>result' w'. runKotlinDev env options result w = (Inr result', w') \<and>
      (changed result \<noteq> [] \<longrightarrow> files w' ?M = Some (Json (JObject (filter ?keep manifest)))) \<and>
      (changed result = [] \<longrightarrow> files w' ?M = fs2 ?M) \<and>
      (\<exists>kept. ?read (files w') = Inr (Some (JObject kept)) \<and>
         map fst kept = filter (\<lambda>k. k \<notin> units ` set (changed result)) (map fst manifest) \<and>
         (\<forall>file\<in>set (changed result). units file \<notin> fst ` set kept))"
    if parsed: "?read fs2 = Inr (Some (JObject manifest))" for manifest
  proof (cases "changed result = []")
    case True
    with run parsed show ?thesis
      by simp
  next
    case False
    let ?kept = "map (\<lambda>kv. (fst kv, restore (snd kv))) (filter ?keep manifest)"
    have keys: "map fst ?kept = filter (\<lambda>k. k \<notin> units ` set (changed result)) (map fst manifest)"
      by (simp add: filter_map comp_def)
    then have "set (map fst ?kept) \<inter> units ` set (changed result) = {}"
      by auto
    then have none: "\<forall>file\<in>set (changed result). units file \<notin> fst ` set ?kept"
      by auto
    have again: "?read (fs2(?M \<mapsto> Json (JObject (filter ?keep manifest))))
        = Inr (Some (JObject ?kept))"
      by (simp add: read_written)
    from False run parsed have
      "runKotlinDev env options result w =
         (Inr (result\<lparr>type := Some ''kotlin'', kotlinc := True, changed := []\<rparr>),
          w\<lparr>files := fs2(?M \<mapsto> Json (JObject (filter ?keep manifest))),
            driver_calls := driver_calls w @ [(driverRequest env options cs, inputDir options)],
            console := console w @ logged (msg r)\<rparr>)"
      by (simp add: delete_each_object)
    with False again keys none show ?thesis
      by auto
  qed
  have absent: "\<exists>result' w'. runKotlinDev env options result w = (Inr result', w') \<and>
      files w' ?M = None"
    if "fs2 ?M = None"
    using run that by (simp add: read_absent)
  from present absent show ?thesis
    by blast
qed

text \<open>The sample project with the failing driver: the entry of \<open>b.kt\<close> is gone.\<close>

theorem rollback_witness:
  "\<exists>result' w'. runKotlinDev (sample_env (Some failing_server)) sample_options
       sample_result sample_world = (Inr result', w') \<and>
     files w' ''/p/.kotlin/src/.manifest.json''
       = Some (Json (JObject [(units ''a.kt'', JString (units ''h1'')),
                              (units ''index.kt'', JString (units ''h3''))]))"
proof -
  let ?env = "sample_env (Some failing_server)"
  let ?r = "\<lparr>code = 1, msg = Some ''type error'', data = None\<rparr>"
  let ?manifest = "[(units ''a.kt'', JString (units ''h1'')),
                    (units ''b.kt'', JString (units ''h2'')),
                    (units ''index.kt'', JString (units ''h3''))]"
  have failed: "code ?r \<noteq> 0 \<or> data ?r = None"
    by simp
  note manifest = sample_manifest_read [of "Some failing_server"]
  have listed: "changed sample_result \<noteq> []"
    by (simp add: sample_result_def)
  have kept: "filter (\<lambda>kv. fst kv \<notin> units ` set (changed sample_result)) ?manifest
      = [(units ''a.kt'', JString (units ''h1'')), (units ''index.kt'', JString (units ''h3''))]"
    by code_simp
  from rollback_removes_changed_entries
    [OF sample_resolved sample_filename _ sample_main_exists sample_server
        sample_failing_answer failed]
    manifest listed
  obtain result' w' where
    "runKotlinDev ?env sample_options sample_result sample_world = (Inr result', w')"
    and "files w' (manifestFileOf ?env sample_options) =
      Some (Json (JObject
        (filter (\<lambda>kv. fst kv \<notin> units ` set (changed sample_result)) ?manifest)))"
    by blast
  then show ?thesis
    unfolding kept sample_manifest_file by blast
qed

text \<open>
  The claim as stated fails in the same cycle: \<open>a.kt\<close> was sent to the driver,
  the driver failed, the cycle completed, and the manifest still lists \<open>a.kt\<close>.
\<close>

theorem rollback_keeps_entry_of_uncached_chunk:
  "driver_calls (snd (runKotlinDev (sample_env (Some failing_server)) sample_options
                        sample_result sample_world))
     = [(\<lparr>kotlincFiles = [''/p/.kotlin/src/b.kt'', ''/p/.kotlin/src/a.kt''],
          kotlinOutDir = ''/p/.kotlin/class'', dexOutDir = ''/p/.kotlin/dex'',
          srcInputDir = ''/p/.kotlin/src''\<rparr>, ''/p/in'')] \<and>
   fst (runKotlinDev (sample_env (Some failing_server)) sample_options
          sample_result sample_world)
     = Inr \<lparr>type = Some ''kotlin'', filename = Some ''index.kt'', changed = [],
            chunks = Some [''a.kt''], kotlinc = True\<rparr> \<and>
   files (snd (runKotlinDev (sample_env (Some failing_server)) sample_options
                 sample_result sample_world)) ''/p/.kotlin/src/.manifest.json''
     = Some (Json (JObject [(units ''a.kt'', JString (units ''h1'')),
                            (units ''index.kt'', JString (units ''h3''))]))"
  by code_simp

subsection \<open>C2: the dex path of a Kotlin file\<close>

text \<open>
  C2 says that for every base directory and relative path the dex path is the
  relative path without its \<open>.kt\<close> suffix, rooted at the base directory, followed by
  \<open>classes.dex\<close>. \<open>resolveDexByKotlinFile\<close> calls \<open>replace('.kt', '')\<close> on the resolved
  absolute path, which removes the first \<open>.kt\<close> of the whole path: for a project kept
  in a directory \<open>my.ktx\<close> the directory loses three characters and the file keeps
  its suffix. Evaluated here; the path the claim describes is
  \<open>/work/my.ktx/.kotlin/dex/pages/index/classes.dex\<close>. The base directory is the one
  \<open>runKotlinDev\<close> derives for the output directory \<open>/work/my.ktx/out\<close>. A relative
  path with an earlier \<open>.kt\<close> goes wrong the same way, and a path whose only
  \<open>.kt\<close> is the suffix comes out as the claim says.
\<close>

theorem dex_path_drops_first_kt_of_whole_path:
  "resolveDexByKotlinFile ''/w'' ''/work/my.ktx/.kotlin/dex'' ''pages/index.kt''
     = ''/work/myx/.kotlin/dex/pages/index.kt/classes.dex'' \<and>
   dexOutDirOf (sample_env None) \<lparr>inputDir = ''/work/my.ktx/src'', outputDir = ''/work/my.ktx/out''\<rparr>
     = ''/work/my.ktx/.kotlin/dex'' \<and>
   resolveDexByKotlinFile ''/w'' ''/p/.kotlin/dex'' ''a.ktx/b.kt''
     = ''/p/.kotlin/dex/ax/b.kt/classes.dex'' \<and>
   resolveDexByKotlinFile ''/w'' ''/p/.kotlin/dex'' ''pages/index.kt''
     = ''/p/.kotlin/dex/pages/index/classes.dex''"
  by code_simp

subsection \<open>C3: the change set has no duplicates\<close>

text \<open>
  C3 says that for any \<open>changed\<close> and \<open>chunks\<close> the resolver returns absolute paths
  without duplicates. The resolver copies the \<open>changed\<close> list into the change set
  as it is; only the entry file and the chunks are tested with \<open>includes\<close> before
  they are pushed. The statement that holds: when the entries of \<open>changed\<close> resolve
  to pairwise different paths, the resolver returns (it does not throw), the change
  set has no duplicates, and every entry is an absolute path, namely
  \<open>path.resolve(kotlinSrcOutDir, f)\<close> for a file \<open>f\<close> of \<open>changed\<close>, \<open>index.kt\<close> or
  \<open>chunks\<close>. The working directory of a process is absolute.
\<close>

theorem change_set_distinct_when_changed_distinct:
  assumes "isAbsolute wd"
    and "distinct (map (\<lambda>f. path_resolve wd [src, f]) (changed result))"
    and "parseKotlinChangedFiles wd result src dex out fs = (r, fs')"
  shows "\<exists>cs. r = Inr cs \<and> distinct cs \<and> (\<forall>p\<in>set cs. isAbsolute p) \<and>
           (\<forall>p\<in>set cs. \<exists>f\<in>set (changed result @ chunk_names result).
              p = path_resolve wd [src, f])"
proof -
  let ?start = "map (\<lambda>f. path_resolve wd [src, f]) (changed result)"
  from parse_split [OF assms(3)] obtain cs where r: "r = Inr cs"
    and run: "chunks_forEach wd src dex out (chunk_names result) ?start
        (\<lambda>p. if p \<in> resolveDexByKotlinFile wd dex ` set (changed result) then None else fs p)
      = (Inr cs, fs')"
    by blast
  have d: "distinct cs"
    using chunks_forEach_distinct [OF run assms(2)] .
  have sub: "set cs \<subseteq> set ?start \<union> (\<lambda>c. path_resolve wd [src, c]) ` set (chunk_names result)"
    using chunks_forEach_subset [OF run] .
  then have from_names: "\<forall>p\<in>set cs. \<exists>f\<in>set (changed result @ chunk_names result).
      p = path_resolve wd [src, f]"
    by auto
  then have "\<forall>p\<in>set cs. isAbsolute p"
    using path_resolve_absolute [OF assms(1)] by auto
  with r d from_names show ?thesis
    by blast
qed

text \<open>The sample project: one changed file, one chunk without a cached dex.\<close>

theorem change_set_distinct_witness:
  "\<exists>cs. fst (parseKotlinChangedFiles ''/w'' sample_result ''/p/.kotlin/src'' ''/p/.kotlin/dex''
              ''/p/out'' sample_files) = Inr cs \<and> distinct cs \<and> list_all isAbsolute cs"
proof -
  have abs: "isAbsolute ''/w''"
    by (simp add: isAbsolute_def)
  have dis: "distinct (map (\<lambda>f. path_resolve ''/w'' [''/p/.kotlin/src'', f]) (changed sample_result))"
    by (simp add: sample_result_def)
  have run: "parseKotlinChangedFiles ''/w'' sample_result ''/p/.kotlin/src'' ''/p/.kotlin/dex''
               ''/p/out'' sample_files
             = (fst (parseKotlinChangedFiles ''/w'' sample_result ''/p/.kotlin/src''
                       ''/p/.kotlin/dex'' ''/p/out'' sample_files),
                snd (parseKotlinChangedFiles ''/w'' sample_result ''/p/.kotlin/src''
                       ''/p/.kotlin/dex'' ''/p/out'' sample_files))"
    by simp
  from change_set_distinct_when_changed_distinct [OF abs dis run]
  show ?thesis
    by (auto simp: list_all_iff)
qed

text \<open>
  The claim as stated fails when the transpiler lists a file twice: both copies
  reach the change set.
\<close>

theorem change_set_repeats_changed_twice:
  "fst (parseKotlinChangedFiles ''/w'' (sample_result\<lparr>changed := [''b.kt'', ''b.kt'']\<rparr>)
          ''/p/.kotlin/src'' ''/p/.kotlin/dex'' ''/p/out'' sample_files)
     = Inr [''/p/.kotlin/src/b.kt'', ''/p/.kotlin/src/b.kt'', ''/p/.kotlin/src/a.kt'']"
  by code_simp

subsection \<open>C4: when the cycle skips compilation\<close>

text \<open>
  C4 says the driver is left alone precisely when the change set is empty and the
  entry Kotlin file is missing, and that every other case compiles or fails for want
  of the toolchain. The code compiles under
  \<open>kotlinChangedFiles.length && fs.existsSync(kotlinMainFile)\<close>, so it skips when the
  change set is empty or the entry file is missing. The statement that holds, for a
  cycle whose resolver returned \<open>cs\<close> and left the files \<open>fs1\<close>: the cycle returns
  the result untouched but for its \<open>type\<close>, with no request sent to the driver,
  exactly when \<open>cs\<close> is empty or the entry file does not exist; no request is sent
  exactly in those cases and when the toolchain is unavailable; and otherwise the
  cycle throws the toolchain error or sends the driver one request, for \<open>cs\<close>.
\<close>

theorem compile_skipped_iff_nothing_to_build:
  assumes "resolveChangeSet env options result (files w) = (Inr cs, fs1)"
    and "filename result = Some name"
  shows "((runKotlinDev env options result w =
            (Inr (result\<lparr>type := Some ''kotlin''\<rparr>), w\<lparr>files := fs1\<rparr>))
           = (cs = [] \<or> \<not> existsSync fs1 (mainFileOf env options name))) \<and>
         ((driver_calls (snd (runKotlinDev env options result w)) = driver_calls w)
           = (cs = [] \<or> \<not> existsSync fs1 (mainFileOf env options name) \<or>
              compilerServer env = None)) \<and>
         (cs \<noteq> [] \<and> existsSync fs1 (mainFileOf env options name) \<longrightarrow>
           (case compilerServer env of
              None \<Rightarrow> fst (runKotlinDev env options result w) = Inl RunExtensionMissing
            | Some server \<Rightarrow>
                driver_calls (snd (runKotlinDev env options result w)) =
                  driver_calls w @ [(driverRequest env options cs, inputDir options)]))"
proof (cases "cs = [] \<or> \<not> existsSync fs1 (mainFileOf env options name)")
  case True
  from runKotlinDev_skip [OF assms True] True show ?thesis
    by auto
next
  case False
  then have go: "cs \<noteq> []" "existsSync fs1 (mainFileOf env options name)"
    by simp_all
  show ?thesis
  proof (cases "compilerServer env")
    case None
    from runKotlinDev_no_server [OF assms go None] go None show ?thesis
      by simp
  next
    case (Some server)
    from runKotlinDev_calls_driver [OF assms go Some] go Some show ?thesis
      by (auto simp: prod_eq_iff)
  qed
qed

text \<open>
  The sample project with a working driver: a cycle whose entry file \<open>main.kt\<close> is
  missing is skipped although two files await compilation, and the cycle whose entry
  file exists sends one request.
\<close>

theorem compile_skipped_witness:
  "runKotlinDev (sample_env (Some working_server)) sample_options
     (sample_result\<lparr>filename := Some ''main.kt''\<rparr>) sample_world
   = (Inr (sample_result\<lparr>filename := Some ''main.kt'', type := Some ''kotlin''\<rparr>),
      sample_world\<lparr>files :=
        snd (resolveChangeSet (sample_env (Some working_server)) sample_options
               (sample_result\<lparr>filename := Some ''main.kt''\<rparr>) sample_files)\<rparr>) \<and>
   driver_calls (snd (runKotlinDev (sample_env (Some working_server)) sample_options
     sample_result sample_world)) =
     [(\<lparr>kotlincFiles = [''/p/.kotlin/src/b.kt'', ''/p/.kotlin/src/a.kt''],
        kotlinOutDir = ''/p/.kotlin/class'', dexOutDir = ''/p/.kotlin/dex'',
        srcInputDir = ''/p/.kotlin/src''\<rparr>, ''/p/in'')]"
proof -
  let ?env = "sample_env (Some working_server)"
  let ?missing = "sample_result\<lparr>filename := Some ''main.kt''\<rparr>"
  have set1: "fst (resolveChangeSet ?env sample_options ?missing (files sample_world))
      = Inr [''/p/.kotlin/src/b.kt'', ''/p/.kotlin/src/a.kt'']"
    by code_simp
  then have run1: "resolveChangeSet ?env sample_options ?missing (files sample_world)
      = (Inr [''/p/.kotlin/src/b.kt'', ''/p/.kotlin/src/a.kt''],
         snd (resolveChangeSet ?env sample_options ?missing sample_files))"
    by (simp add: prod_eq_iff sample_world_def)
  have name1: "filename ?missing = Some ''main.kt''"
    by simp
  have no_main: "\<not> existsSync
      (snd (resolveChangeSet ?env sample_options ?missing sample_files))
      (mainFileOf ?env sample_options ''main.kt'')"
    by code_simp
  have set2: "fst (resolveChangeSet ?env sample_options sample_result (files sample_world))
      = Inr [''/p/.kotlin/src/b.kt'', ''/p/.kotlin/src/a.kt'']"
    by code_simp
  then have run2: "resolveChangeSet ?env sample_options sample_result (files sample_world)
      = (Inr [''/p/.kotlin/src/b.kt'', ''/p/.kotlin/src/a.kt''],
         snd (resolveChangeSet ?env sample_options sample_result sample_files))"
    by (simp add: prod_eq_iff sample_world_def)
  have name2: "filename sample_result = Some ''index.kt''"
    by (simp add: sample_result_def)
  have main: "existsSync
      (snd (resolveChangeSet ?env sample_options sample_result sample_files))
      (mainFileOf ?env sample_options ''index.kt'')"
    by code_simp
  have server: "compilerServer ?env = Some working_server"
    by (simp add: sample_env_def)
  have request: "driverRequest ?env sample_options [''/p/.kotlin/src/b.kt'', ''/p/.kotlin/src/a.kt'']
      = \<lparr>kotlincFiles = [''/p/.kotlin/src/b.kt'', ''/p/.kotlin/src/a.kt''],
        kotlinOutDir = ''/p/.kotlin/class'', dexOutDir = ''/p/.kotlin/dex'',
        srcInputDir = ''/p/.kotlin/src''\<rparr>"
    by code_simp
  from compile_skipped_iff_nothing_to_build [OF run1 name1] no_main
  have skipped: "runKotlinDev ?env sample_options ?missing sample_world
      = (Inr (?missing\<lparr>type := Some ''kotlin''\<rparr>),
         sample_world\<lparr>files :=
           snd (resolveChangeSet ?env sample_options ?missing sample_files)\<rparr>)"
    by simp
  from compile_skipped_iff_nothing_to_build [OF run2 name2] main server
  have "driver_calls (snd (runKotlinDev ?env sample_options sample_result sample_world))
      = driver_calls sample_world @
          [(driverRequest ?env sample_options [''/p/.kotlin/src/b.kt'', ''/p/.kotlin/src/a.kt''],
            inputDir sample_options)]"
    by simp
  with skipped request show ?thesis
    by (simp add: sample_world_def sample_options_def)
qed

text \<open>
  The claim as stated fails here: nothing changed and every dex is cached, so the
  change set is empty; the entry file exists, so the claim has the cycle compile.
  The cycle returns without a request to the driver, \<open>kotlinc\<close> still unset.
\<close>

theorem compile_skipped_although_entry_file_exists:
  "fst (resolveChangeSet (sample_env (Some working_server)) sample_options
          (sample_result\<lparr>changed := [], chunks := None\<rparr>) sample_files) = Inr [] \<and>
   existsSync
     (snd (resolveChangeSet (sample_env (Some working_server)) sample_options
             (sample_result\<lparr>changed := [], chunks := None\<rparr>) sample_files))
     ''/p/.kotlin/src/index.kt'' \<and>
   fst (runKotlinDev (sample_env (Some working_server)) sample_options
          (sample_result\<lparr>changed := [], chunks := None\<rparr>) sample_world)
     = Inr \<lparr>type = Some ''kotlin'', filename = Some ''index.kt'', changed = [],
            chunks = None, kotlinc = False\<rparr> \<and>
   driver_calls (snd (runKotlinDev (sample_env (Some working_server)) sample_options
          (sample_result\<lparr>changed := [], chunks := None\<rparr>) sample_world)) = []"
  by code_simp

subsection \<open>C5: a file without a cached dex is compiled\<close>



subsection \<open>C6: a changed file loses its cached dex and is compiled\<close>

text \<open>
  C6: for every file of the \<open>changed\<close> list a cached dex artifact, if there is one,
  is deleted before the file is compiled again, and the file is added to the change
  set. The resolver does add the file, but it looks for the artifact at the path
  \<open>resolveDexByKotlinFile\<close> gives, and that is not the artifact's path once \<open>.kt\<close>
  occurs earlier in the absolute path (see C2). Evaluated here for a project kept in
  \<open>/work/my.ktx\<close> whose file \<open>pages/index.kt\<close> changed: the driver's artifact
  \<open>pages/index/classes.dex\<close> lies in the cache at
  \<open>/work/my.ktx/.kotlin/dex/pages/index/classes.dex\<close>, the resolver looks at
  \<open>/work/myx/.kotlin/dex/pages/index.kt/classes.dex\<close>, and the stale artifact is
  still in the cache when the resolver hands the change set on.
\<close>

theorem stale_dex_survives_under_kt_directory:
  "cachedArtifact (sample_env None)
     \<lparr>inputDir = ''/work/my.ktx/src'', outputDir = ''/work/my.ktx/out''\<rparr>
     ''pages/index/classes.dex''
     = ''/work/my.ktx/.kotlin/dex/pages/index/classes.dex'' \<and>
   cachedDex (sample_env None)
     \<lparr>inputDir = ''/work/my.ktx/src'', outputDir = ''/work/my.ktx/out''\<rparr>
     ''pages/index.kt''
     = ''/work/myx/.kotlin/dex/pages/index.kt/classes.dex'' \<and>
   fst (resolveChangeSet (sample_env None)
          \<lparr>inputDir = ''/work/my.ktx/src'', outputDir = ''/work/my.ktx/out''\<rparr>
          \<lparr>type = None, filename = Some ''index.kt'', changed = [''pages/index.kt''],
            chunks = None, kotlinc = False\<rparr>
          ((\<lambda>p. None)
             (''/work/my.ktx/.kotlin/dex/pages/index/classes.dex'' \<mapsto> Raw ''stale dex'')))
     = Inr [''/work/my.ktx/.kotlin/src/pages/index.kt'', ''/work/my.ktx/.kotlin/src/index.kt''] \<and>
   snd (resolveChangeSet (sample_env None)
          \<lparr>inputDir = ''/work/my.ktx/src'', outputDir = ''/work/my.ktx/out''\<rparr>
          \<lparr>type = None, filename = Some ''index.kt'', changed = [''pages/index.kt''],
            chunks = None, kotlinc = False\<rparr>
          ((\<lambda>p. None)
             (''/work/my.ktx/.kotlin/dex/pages/index/classes.dex'' \<mapsto> Raw ''stale dex'')))
     ''/work/my.ktx/.kotlin/dex/pages/index/classes.dex'' = Some (Raw ''stale dex'')"
  by code_simp

subsection \<open>C7: what counts as a driver failure, and what follows\<close>

text \<open>
  C7 says that the driver's answer is a failure exactly when its code is nonzero or
  its data is absent, that the message, if present, is then written with
  \<open>console.error\<close> and not thrown, and that the result's \<open>changed\<close> list is empty
  when the cycle completes. The failure branch rolls the manifest back before it
  looks at the message, and nothing catches what the rollback throws: with a
  manifest file that does not parse the cycle ends in the \<open>SyntaxError\<close> and the
  message is never written. The statement that holds, for a cycle that reached the
  driver and got the answer \<open>r\<close>. With a nonzero code or no data: the cycle throws
  exactly when \<open>changed\<close> is not empty and either the manifest read throws or a key
  cannot be deleted from the parsed value; a cycle that throws has written nothing
  to the console; a cycle that completes returns a result whose \<open>changed\<close> list is
  empty and has appended the message, where a message is present in the sense of
  \<open>if (msg)\<close>: given and not the empty string; and the cycle completes whenever
  \<open>changed\<close> is empty, there is no manifest file, or the manifest reads as a
  mapping. The message itself is never thrown. With code zero and data present
  nothing is written to the console and a completed cycle reports the driver's dex
  list instead.
\<close>

theorem driver_failure_rollback_then_log:
  assumes "resolveChangeSet env options result (files w) = (Inr cs, fs1)"
    and "filename result = Some name"
    and "cs \<noteq> []" and "existsSync fs1 (mainFileOf env options name)"
    and "compilerServer env = Some server"
    and "compile server (driverRequest env options cs) (inputDir options) fs1 = (r, fs2)"
  shows "(code r \<noteq> 0 \<or> data r = None \<longrightarrow>
            (\<forall>e. (fst (runKotlinDev env options result w) = Inl e)
               = (changed result \<noteq> [] \<and>
                  (readKotlinManifestJson (JSON_parse env) (cwd env) (srcOutDirOf env options) fs2
                     = Inl e \<or>
                   (\<exists>manifest.
                      readKotlinManifestJson (JSON_parse env) (cwd env) (srcOutDirOf env options)
                        fs2 = Inr (Some manifest) \<and>
                      truthy manifest \<and> delete_each (changed result) manifest = Inl e)))) \<and>
            (\<forall>e. fst (runKotlinDev env options result w) = Inl e \<longrightarrow>
               console (snd (runKotlinDev env options result w)) = console w) \<and>
            (\<forall>result'. fst (runKotlinDev env options result w) = Inr result' \<longrightarrow>
               changed result' = [] \<and> kotlinc result' \<and>
               console (snd (runKotlinDev env options result w)) = console w @ logged (msg r)) \<and>
            (changed result = [] \<or> fs2 (manifestFileOf env options) = None \<or>
             (\<exists>kvs. readKotlinManifestJson (JSON_parse env) (cwd env) (srcOutDirOf env options)
                      fs2 = Inr (Some (JObject kvs)))
             \<longrightarrow> (\<exists>result'. fst (runKotlinDev env options result w) = Inr result'))) \<and>
         (\<forall>d. code r = 0 \<and> data r = Some d \<longrightarrow>
            console (snd (runKotlinDev env options result w)) = console w \<and>
            (\<forall>result'. fst (runKotlinDev env options result w) = Inr result' \<longrightarrow>
               changed result' = dexList d))"
proof -
  have failure: ?thesis if failed: "code r \<noteq> 0 \<or> data r = None"
  proof -
    from failed have no_success: "\<not> (code r = 0 \<and> data r = Some d)" for d
      by auto
    note run = runKotlinDev_failure [OF assms failed]
    show ?thesis
    proof (cases "changed result = []")
      case True
      with run no_success failed show ?thesis
        by auto
    next
      case False
      show ?thesis
      proof (cases "readKotlinManifestJson (JSON_parse env) (cwd env) (srcOutDirOf env options) fs2")
        case (Inl e)
        then have "fs2 (manifestFileOf env options) \<noteq> None"
          using read_not_absent [of "JSON_parse env" env options fs2] by simp
        with Inl run False no_success failed show ?thesis
          by auto
      next
        case (Inr found)
        show ?thesis
        proof (cases found)
          case None
          with run False no_success failed Inr show ?thesis
            by auto
        next
          case (Some manifest)
          with Inr have parsed:
            "readKotlinManifestJson (JSON_parse env) (cwd env) (srcOutDirOf env options) fs2
               = Inr (Some manifest)"
            by simp
          then have present: "fs2 (manifestFileOf env options) \<noteq> None"
            using read_not_absent [of "JSON_parse env" env options fs2] by simp
          show ?thesis
          proof (cases "truthy manifest")
            case False
            with run \<open>changed result \<noteq> []\<close> no_success failed parsed present show ?thesis
              by auto
          next
            case True
            show ?thesis
            proof (cases "delete_each (changed result) manifest")
              case (Inl e)
              with run \<open>changed result \<noteq> []\<close> no_success failed parsed present True
              show ?thesis
                by (auto simp: delete_each_object)
            next
              case (Inr manifest')
              with run \<open>changed result \<noteq> []\<close> no_success failed parsed present True
              show ?thesis
                by (auto simp: delete_each_object)
            qed
          qed
        qed
      qed
    qed
  qed
  have success: ?thesis if "code r = 0" and "data r = Some d" for d
    using runKotlinDev_success [OF assms that] that
    by (auto split: prod.splits sum.splits)
  from failure success show ?thesis
    by (cases "data r") auto
qed

text \<open>
  The sample project: the failing driver's message is on the console and \<open>changed\<close>
  is empty; the working driver leaves the console empty.
\<close>

theorem driver_failure_witness:
  "(\<exists>result'. fst (runKotlinDev (sample_env (Some failing_server)) sample_options
                    sample_result sample_world) = Inr result' \<and>
       changed result' = [] \<and> kotlinc result') \<and>
   console (snd (runKotlinDev (sample_env (Some failing_server)) sample_options
                   sample_result sample_world)) = [''type error''] \<and>
   console (snd (runKotlinDev (sample_env (Some working_server)) sample_options
                   sample_result sample_world)) = []"
proof -
  let ?env = "sample_env (Some failing_server)"
  from sample_manifest_read [of "Some failing_server"]
  have parsed: "\<exists>kvs. readKotlinManifestJson (JSON_parse ?env) (cwd ?env)
      (srcOutDirOf ?env sample_options)
      (snd (resolveChangeSet ?env sample_options sample_result sample_files))
      = Inr (Some (JObject kvs))"
    by blast
  note failing = driver_failure_rollback_then_log
    [OF sample_resolved sample_filename _ sample_main_exists sample_server sample_failing_answer]
  from failing parsed obtain result' where
    returned: "fst (runKotlinDev ?env sample_options sample_result sample_world) = Inr result'"
    by auto
  with failing have "changed result' = [] \<and> kotlinc result' \<and>
      console (snd (runKotlinDev ?env sample_options sample_result sample_world))
        = [''type error'']"
    by (simp add: logged_def sample_world_def)
  moreover from driver_failure_rollback_then_log
    [OF sample_resolved sample_filename _ sample_main_exists sample_server sample_working_answer]
  have "console (snd (runKotlinDev (sample_env (Some working_server)) sample_options
      sample_result sample_world)) = []"
    by (simp add: sample_world_def)
  ultimately show ?thesis
    using returned by simp
qed

text \<open>
  The claim as stated fails when the manifest of the sample project is cut short:
  the driver fails with the message \<open>type error\<close>, the cycle throws the
  \<open>SyntaxError\<close> of the manifest read, and the console stays empty.
\<close>

theorem driver_message_lost_when_manifest_unparsable:
  "JSON_parse_text ''{ a.kt: '' = None \<and>
   fst (runKotlinDev (sample_env (Some failing_server)) sample_options sample_result
          (sample_world\<lparr>files :=
             sample_files(''/p/.kotlin/src/.manifest.json'' \<mapsto> Raw ''{ a.kt: '')\<rparr>))
     = Inl SyntaxError \<and>
   console (snd (runKotlinDev (sample_env (Some failing_server)) sample_options sample_result
          (sample_world\<lparr>files :=
             sample_files(''/p/.kotlin/src/.manifest.json'' \<mapsto> Raw ''{ a.kt: '')\<rparr>)))
     = [] \<and>
   msg (fst (compile failing_server
          (driverRequest (sample_env (Some failing_server)) sample_options
             [''/p/.kotlin/src/b.kt'', ''/p/.kotlin/src/a.kt''])
          ''/p/in'' sample_files)) = Some ''type error''"
  by code_simp

subsection \<open>C8: a successful cycle mirrors the driver's artifacts\<close>

text \<open>
  C8: after a cycle whose driver answered with code zero and data, the result's
  \<open>changed\<close> list is the driver's dex list and every artifact of that list exists
  in the dex cache and in the output directory. \<open>syncDexList\<close> copies with
  \<open>fs.copySync\<close>, which throws on a missing source. So: the cycle completes
  whenever the driver left every artifact it lists in the cache (and no artifact's
  cache path is its own output path); and whenever the cycle completes, \<open>changed\<close>
  is the dex list and every listed artifact exists at its cache path and at its
  output path. When the output paths of the list are pairwise different and none is
  a cache path of the list, each output file has the contents the driver left in
  the cache.
\<close>

theorem driver_success_mirrors_artifacts:
  assumes "resolveChangeSet env options result (files w) = (Inr cs, fs1)"
    and "filename result = Some name"
    and "cs \<noteq> []" and "existsSync fs1 (mainFileOf env options name)"
    and "compilerServer env = Some server"
    and "compile server (driverRequest env options cs) (inputDir options) fs1 = (r, fs2)"
    and "code r = 0" and "data r = Some d"
  shows "((\<forall>dex\<in>set (dexList d).
             existsSync fs2 (cachedArtifact env options dex) \<and>
             cachedArtifact env options dex \<noteq> outputArtifact env options dex)
          \<longrightarrow> (\<exists>result' w'. runKotlinDev env options result w = (Inr result', w'))) \<and>
         (\<forall>result' w'. runKotlinDev env options result w = (Inr result', w') \<longrightarrow>
            changed result' = dexList d \<and>
            (\<forall>dex\<in>set (dexList d).
               existsSync (files w') (cachedArtifact env options dex) \<and>
               existsSync (files w') (outputArtifact env options dex)) \<and>
            (distinct (map (outputArtifact env options) (dexList d)) \<and>
             (\<forall>a\<in>set (dexList d). \<forall>b\<in>set (dexList d).
                cachedArtifact env options a \<noteq> outputArtifact env options b)
             \<longrightarrow> (\<forall>dex\<in>set (dexList d).
                    files w' (outputArtifact env options dex) =
                      fs2 (cachedArtifact env options dex))))"
proof -
  let ?sync = "syncDexList (cwd env) (dexList d) (dexOutDirOf env options) (outputDir options) fs2"
  note run = runKotlinDev_success [OF assms]
  have completes: "\<exists>result' w'. runKotlinDev env options result w = (Inr result', w')"
    if "\<forall>dex\<in>set (dexList d).
          existsSync fs2 (cachedArtifact env options dex) \<and>
          cachedArtifact env options dex \<noteq> outputArtifact env options dex"
  proof -
    from that have "\<exists>fs3. ?sync = (Inr (), fs3)"
      by (intro syncDexList_completes)
         (simp add: existsSync_def cachedArtifact_def outputArtifact_def)
    with run show ?thesis
      by auto
  qed
  have mirrored: "changed result' = dexList d \<and>
      (\<forall>dex\<in>set (dexList d).
         existsSync (files w') (cachedArtifact env options dex) \<and>
         existsSync (files w') (outputArtifact env options dex)) \<and>
      (distinct (map (outputArtifact env options) (dexList d)) \<and>
       (\<forall>a\<in>set (dexList d). \<forall>b\<in>set (dexList d).
          cachedArtifact env options a \<noteq> outputArtifact env options b)
       \<longrightarrow> (\<forall>dex\<in>set (dexList d).
              files w' (outputArtifact env options dex) =
                fs2 (cachedArtifact env options dex)))"
    if "runKotlinDev env options result w = (Inr result', w')" for result' w'
  proof -
    from that run obtain u fs3 where sync: "?sync = (Inr u, fs3)"
      and result': "result' = result\<lparr>type := Some ''kotlin'', kotlinc := True, changed := dexList d\<rparr>"
      and w': "files w' = fs3"
      by (auto split: prod.splits sum.splits)
    have same: "files w' (outputArtifact env options dex) = fs2 (cachedArtifact env options dex)"
      if "distinct (map (outputArtifact env options) (dexList d))"
        and "\<forall>a\<in>set (dexList d). \<forall>b\<in>set (dexList d).
               cachedArtifact env options a \<noteq> outputArtifact env options b"
        and "dex \<in> set (dexList d)" for dex
    proof -
      have "outputArtifact env options = (\<lambda>d. path_resolve (cwd env) [outputDir options, d])"
        by (simp add: outputArtifact_def fun_eq_iff)
      with that(1) have "distinct (map (\<lambda>d. path_resolve (cwd env) [outputDir options, d]) (dexList d))"
        by simp
      from syncDexList_content [OF sync this _ that(3)] that(2) w' show ?thesis
        by (simp add: cachedArtifact_def outputArtifact_def)
    qed
    from syncDexList_both [OF sync] w' result' same show ?thesis
      by (simp add: existsSync_def cachedArtifact_def outputArtifact_def)
  qed
  from completes mirrored show ?thesis
    by blast
qed

text \<open>
  The sample project with the working driver: both artifacts arrive in the output
  directory, and the artifact of \<open>b.kt\<close> from the earlier build is replaced.
\<close>

theorem driver_success_witness:
  "\<exists>w'. runKotlinDev (sample_env (Some working_server)) sample_options sample_result sample_world
     = (Inr \<lparr>type = Some ''kotlin'', filename = Some ''index.kt'',
             changed = [''b/classes.dex'', ''a/classes.dex''],
             chunks = Some [''a.kt''], kotlinc = True\<rparr>, w') \<and>
     existsSync (files w') ''/p/.kotlin/dex/b/classes.dex'' \<and>
     existsSync (files w') ''/p/out/b/classes.dex'' \<and>
     existsSync (files w') ''/p/.kotlin/dex/a/classes.dex'' \<and>
     existsSync (files w') ''/p/out/a/classes.dex'' \<and>
     files w' ''/p/out/b/classes.dex'' = Some (Raw ''dex of b'')"
proof -
  let ?env = "sample_env (Some working_server)"
  let ?d = "\<lparr>dexList = [''b/classes.dex'', ''a/classes.dex'']\<rparr>"
  let ?r = "\<lparr>code = 0, msg = None, data = Some ?d\<rparr>"
  have ready: "\<forall>dex\<in>set (dexList ?d).
      existsSync
        ((snd (resolveChangeSet ?env sample_options sample_result sample_files))
           (''/p/.kotlin/dex/b/classes.dex'' \<mapsto> Raw ''dex of b'',
            ''/p/.kotlin/dex/a/classes.dex'' \<mapsto> Raw ''dex of a''))
        (cachedArtifact ?env sample_options dex) \<and>
      cachedArtifact ?env sample_options dex \<noteq> outputArtifact ?env sample_options dex"
    by code_simp
  have places:
    "cachedArtifact ?env sample_options ''b/classes.dex'' = ''/p/.kotlin/dex/b/classes.dex''"
    "outputArtifact ?env sample_options ''b/classes.dex'' = ''/p/out/b/classes.dex''"
    "cachedArtifact ?env sample_options ''a/classes.dex'' = ''/p/.kotlin/dex/a/classes.dex''"
    "outputArtifact ?env sample_options ''a/classes.dex'' = ''/p/out/a/classes.dex''"
    by code_simp+
  have apart: "distinct (map (outputArtifact ?env sample_options) (dexList ?d)) \<and>
      (\<forall>a\<in>set (dexList ?d). \<forall>b\<in>set (dexList ?d).
         cachedArtifact ?env sample_options a \<noteq> outputArtifact ?env sample_options b)"
    by code_simp
  have code: "code ?r = 0" and data: "data ?r = Some ?d"
    by simp_all
  note mirror = driver_success_mirrors_artifacts
    [OF sample_resolved sample_filename _ sample_main_exists sample_server
        sample_working_answer code data]
  from mirror ready obtain result' w' where
    run: "runKotlinDev ?env sample_options sample_result sample_world = (Inr result', w')"
    by auto
  have shape: "fst (runKotlinDev ?env sample_options sample_result sample_world)
      = Inr \<lparr>type = Some ''kotlin'', filename = Some ''index.kt'',
             changed = [''b/classes.dex'', ''a/classes.dex''],
             chunks = Some [''a.kt''], kotlinc = True\<rparr>"
    by code_simp
  from mirror run have "\<forall>dex\<in>set (dexList ?d).
      existsSync (files w') (cachedArtifact ?env sample_options dex) \<and>
      existsSync (files w') (outputArtifact ?env sample_options dex)"
    by auto
  moreover from mirror run apart have "\<forall>dex\<in>set (dexList ?d).
      files w' (outputArtifact ?env sample_options dex) =
        ((snd (resolveChangeSet ?env sample_options sample_result sample_files))
           (''/p/.kotlin/dex/b/classes.dex'' \<mapsto> Raw ''dex of b'',
            ''/p/.kotlin/dex/a/classes.dex'' \<mapsto> Raw ''dex of a''))
        (cachedArtifact ?env sample_options dex)"
    by blast
  ultimately show ?thesis
    using run shape by (auto simp: places)
qed

subsection \<open>C9: a failed cycle leaves the earlier output alone\<close>

text \<open>
  C9: in a cycle that ends in a compile failure no dex artifact that was in the
  output directory before the cycle is deleted or overwritten; promotion copies only
  to paths that do not exist yet, and the failure branch writes the manifest file
  and nothing else. Take any file \<open>p\<close> that exists before the cycle. The cycle
  deletes files in one place only, the cached dex of each changed file, so \<open>p\<close> is
  taken to be none of those (the output directory is not the dex cache), and it is
  not the manifest. The driver is external and is assumed to leave \<open>p\<close> as it
  found it. Then the resolver hands \<open>p\<close> on unchanged, the failure branch changes no
  file but the manifest, and \<open>p\<close> has its old contents when the cycle ends, whether
  it returns or throws.
\<close>

theorem failed_cycle_keeps_previous_output:
  assumes "resolveChangeSet env options result (files w) = (Inr cs, fs1)"
    and "filename result = Some name"
    and "cs \<noteq> []" and "existsSync fs1 (mainFileOf env options name)"
    and "compilerServer env = Some server"
    and "compile server (driverRequest env options cs) (inputDir options) fs1 = (r, fs2)"
    and "code r \<noteq> 0 \<or> data r = None"
    and "files w p = Some c"
    and "p \<notin> cachedDex env options ` set (changed result)"
    and "p \<noteq> manifestFileOf env options"
    and "fs2 p = fs1 p"
  shows "fs1 p = Some c \<and>
         (\<forall>q. q \<noteq> manifestFileOf env options \<longrightarrow>
            files (snd (runKotlinDev env options result w)) q = fs2 q) \<and>
         files (snd (runKotlinDev env options result w)) p = Some c"
proof -
  have kept: "fs1 p = Some c"
    using resolver_keeps_existing [OF assms(1) assms(8) assms(9)] .
  have branch: "files (snd (runKotlinDev env options result w)) q = fs2 q"
    if "q \<noteq> manifestFileOf env options" for q
    using runKotlinDev_failure [OF assms(1-7)] that
    by (simp split: option.splits sum.splits)
  from kept branch assms(10,11) show ?thesis
    by simp
qed

text \<open>
  The sample project with the failing driver: the artifact of \<open>b.kt\<close> deployed by
  the earlier build is still there.
\<close>

theorem failed_cycle_witness:
  "files (snd (runKotlinDev (sample_env (Some failing_server)) sample_options
                 sample_result sample_world)) ''/p/out/b/classes.dex''
     = Some (Raw ''dex of the old b'') \<and>
   fst (runKotlinDev (sample_env (Some failing_server)) sample_options
          sample_result sample_world)
     = Inr \<lparr>type = Some ''kotlin'', filename = Some ''index.kt'', changed = [],
            chunks = Some [''a.kt''], kotlinc = True\<rparr>"
proof -
  let ?env = "sample_env (Some failing_server)"
  let ?r = "\<lparr>code = 1, msg = Some ''type error'', data = None\<rparr>"
  have failed: "code ?r \<noteq> 0 \<or> data ?r = None"
    by simp
  have before: "files sample_world ''/p/out/b/classes.dex'' = Some (Raw ''dex of the old b'')"
    by (simp add: sample_world_def sample_files_def)
  have not_stale: "''/p/out/b/classes.dex'' \<notin> cachedDex ?env sample_options ` set (changed sample_result)"
    by code_simp
  have not_manifest: "''/p/out/b/classes.dex'' \<noteq> manifestFileOf ?env sample_options"
    by (simp add: sample_manifest_file)
  have outcome: "fst (runKotlinDev ?env sample_options sample_result sample_world)
      = Inr \<lparr>type = Some ''kotlin'', filename = Some ''index.kt'', changed = [],
             chunks = Some [''a.kt''], kotlinc = True\<rparr>"
    by code_simp
  from failed_cycle_keeps_previous_output
    [OF sample_resolved sample_filename _ sample_main_exists sample_server
        sample_failing_answer failed before not_stale not_manifest]
    outcome
  show ?thesis
    by simp
qed

subsection \<open>C10: reading a manifest that is not JSON\<close>

text \<open>
  C10 says that \<open>readKotlinManifestJson\<close> throws when the file \<open>.manifest.json\<close>
  exists and its contents are not JSON, and that absent is returned only when the
  file does not exist. The function returns whatever \<open>JSON.parse\<close> returns: for a
  file holding \<open>null\<close> that is \<open>null\<close>, without a throw, and \<open>runKotlinDev\<close> then
  goes on as it does when there is no manifest. The statement that holds:
  \<open>undefined\<close> is returned exactly when the file does not exist; a text that
  \<open>JSON.parse\<close> rejects gives its \<open>SyntaxError\<close> to the caller; a text it accepts
  gives the parsed value, and a file written by \<open>JSON.stringify\<close> gives back what
  was written; the value returned for an existing file fails the caller's test
  \<open>if (manifest)\<close> exactly when it is \<open>null\<close>, \<open>false\<close>, the empty string or a zero.
\<close>

theorem manifest_read_outcomes:
  "((readKotlinManifestJson parse wd src fs = Inr None)
      = (\<not> existsSync fs (path_resolve wd [src, ''.manifest.json'']))) \<and>
   (\<forall>text. fs (path_resolve wd [src, ''.manifest.json'']) = Some (Raw text) \<and>
           parse text = None
      \<longrightarrow> readKotlinManifestJson parse wd src fs = Inl SyntaxError) \<and>
   (\<forall>text v. fs (path_resolve wd [src, ''.manifest.json'']) = Some (Raw text) \<and>
           parse text = Some v
      \<longrightarrow> readKotlinManifestJson parse wd src fs = Inr (Some v)) \<and>
   (\<forall>v. fs (path_resolve wd [src, ''.manifest.json'']) = Some (Json v)
      \<longrightarrow> readKotlinManifestJson parse wd src fs = Inr (Some (restore v))) \<and>
   (\<forall>v. readKotlinManifestJson parse wd src fs = Inr (Some v) \<longrightarrow>
      existsSync fs (path_resolve wd [src, ''.manifest.json'']) \<and>
      (truthy v) =
        (v \<noteq> JNull \<and> v \<noteq> JBool False \<and> v \<noteq> JString [] \<and>
         (\<forall>m e. v = JNumber m e \<longrightarrow> \<not> number_is_zero m e)))"
proof -
  have falsy: "truthy v =
      (v \<noteq> JNull \<and> v \<noteq> JBool False \<and> v \<noteq> JString [] \<and>
       (\<forall>m e. v = JNumber m e \<longrightarrow> \<not> number_is_zero m e))" for v
    by (cases v) auto
  show ?thesis
    by (auto simp: readKotlinManifestJson_def existsSync_def Let_def falsy [symmetric]
          split: option.splits file_content.splits)
qed

text \<open>The sample project with a truncated manifest, without one, and as it is.\<close>

theorem manifest_read_witness:
  "readKotlinManifestJson JSON_parse_text ''/w'' ''/p/.kotlin/src''
     (sample_files(''/p/.kotlin/src/.manifest.json'' \<mapsto> Raw ''{ a.kt: ''))
     = Inl SyntaxError \<and>
   readKotlinManifestJson JSON_parse_text ''/w'' ''/p/.kotlin/src''
     (sample_files(''/p/.kotlin/src/.manifest.json'' := None)) = Inr None \<and>
   readKotlinManifestJson JSON_parse_text ''/w'' ''/p/.kotlin/src'' sample_files
     = Inr (Some (JObject [(units ''a.kt'', JString (units ''h1'')),
                           (units ''b.kt'', JString (units ''h2'')),
                           (units ''index.kt'', JString (units ''h3''))]))"
proof -
  have place: "path_resolve ''/w'' [''/p/.kotlin/src'', ''.manifest.json'']
      = ''/p/.kotlin/src/.manifest.json''"
    by code_simp
  have broken: "JSON_parse_text ''{ a.kt: '' = None"
    by code_simp
  from manifest_read_outcomes
    [of JSON_parse_text "''/w''" "''/p/.kotlin/src''"
        "sample_files(''/p/.kotlin/src/.manifest.json'' \<mapsto> Raw ''{ a.kt: '')"]
    broken
  have first: "readKotlinManifestJson JSON_parse_text ''/w'' ''/p/.kotlin/src''
      (sample_files(''/p/.kotlin/src/.manifest.json'' \<mapsto> Raw ''{ a.kt: '')) = Inl SyntaxError"
    by (simp add: place)
  from manifest_read_outcomes
    [of JSON_parse_text "''/w''" "''/p/.kotlin/src''"
        "sample_files(''/p/.kotlin/src/.manifest.json'' := None)"]
  have second: "readKotlinManifestJson JSON_parse_text ''/w'' ''/p/.kotlin/src''
      (sample_files(''/p/.kotlin/src/.manifest.json'' := None)) = Inr None"
    by (simp add: place existsSync_def)
  have "sample_files ''/p/.kotlin/src/.manifest.json'' = Some (Raw sample_manifest)"
    by (simp add: sample_files_def)
  with manifest_read_outcomes [of JSON_parse_text "''/w''" "''/p/.kotlin/src''" sample_files]
    sample_manifest_parsed
  have third: "readKotlinManifestJson JSON_parse_text ''/w'' ''/p/.kotlin/src'' sample_files
      = Inr (Some (JObject [(units ''a.kt'', JString (units ''h1'')),
                            (units ''b.kt'', JString (units ''h2'')),
                            (units ''index.kt'', JString (units ''h3''))]))"
    by (simp add: place)
  from first second third show ?thesis
    by simp
qed

text \<open>
  The claim as stated fails for a manifest file that holds \<open>null\<close>: the file exists,
  the read returns \<open>null\<close>, which is not truthy, and the failing cycle completes and
  leaves the file as it is, exactly as it completes when the file is missing.
\<close>

theorem manifest_null_read_as_absent:
  "existsSync (sample_files(''/p/.kotlin/src/.manifest.json'' \<mapsto> Raw ''null''))
     ''/p/.kotlin/src/.manifest.json'' \<and>
   readKotlinManifestJson JSON_parse_text ''/w'' ''/p/.kotlin/src''
     (sample_files(''/p/.kotlin/src/.manifest.json'' \<mapsto> Raw ''null''))
     = Inr (Some JNull) \<and>
   \<not> truthy JNull \<and>
   fst (runKotlinDev (sample_env (Some failing_server)) sample_options sample_result
          (sample_world\<lparr>files :=
             sample_files(''/p/.kotlin/src/.manifest.json'' \<mapsto> Raw ''null'')\<rparr>))
     = Inr \<lparr>type = Some ''kotlin'', filename = Some ''index.kt'', changed = [],
            chunks = Some [''a.kt''], kotlinc = True\<rparr> \<and>
   files (snd (runKotlinDev (sample_env (Some failing_server)) sample_options sample_result
          (sample_world\<lparr>files :=
             sample_files(''/p/.kotlin/src/.manifest.json'' \<mapsto> Raw ''null'')\<rparr>)))
     ''/p/.kotlin/src/.manifest.json'' = Some (Raw ''null'') \<and>
   fst (runKotlinDev (sample_env (Some failing_server)) sample_options sample_result
          (sample_world\<lparr>files :=
             sample_files(''/p/.kotlin/src/.manifest.json'' := None)\<rparr>))
     = Inr \<lparr>type = Some ''kotlin'', filename = Some ''index.kt'', changed = [],
            chunks = Some [''a.kt''], kotlinc = True\<rparr>"
  by code_simp

end
